theory Spec2Isabelle
  imports Main
begin

section \<open>The SSE application factory of the tool servers\<close>

text \<open>
  Five servers define \<open>create_starlette_app(mcp_server, *, debug=False)\<close>:
  \<open>gmail_mcp_server.py\<close>, \<open>google_calendar_mcp_tool.py\<close>, \<open>google_drive_mcp_tool.py\<close>,
  \<open>jira_mcp_server.py\<close> and \<open>video_mcp_server.py\<close>. Each one creates
  \<open>sse = SseServerTransport("/messages/")\<close>, a local coroutine \<open>handle_sse\<close> that closes
  over \<open>sse\<close> and \<open>mcp_server\<close>, and returns
  \<open>Starlette(debug=debug, routes=[Route("/sse", endpoint=handle_sse),
  Mount("/messages/", app=sse.handle_post_message)])\<close>.
  The Playwright tool has no server module in the repository (only a configuration and an
  agent client), so it has no factory.
\<close>

datatype sse_transport = SseServerTransport string

datatype 'srv asgi_app =
    handle_sse 'srv sse_transport
  | handle_post_message sse_transport

datatype 'srv route =
    Route string "'srv asgi_app"
  | Mount string "'srv asgi_app"

record 'srv starlette =
  debug :: bool
  routes :: "'srv route list"

datatype server = GmailServer | CalendarServer | DriveServer | JiraServer | VideoServer

definition gmail_create_starlette_app :: "'srv \<Rightarrow> bool \<Rightarrow> 'srv starlette" where
  "gmail_create_starlette_app mcp_server dbg =
     (let sse = SseServerTransport ''/messages/'' in
      \<lparr>debug = dbg,
       routes = [Route ''/sse'' (handle_sse mcp_server sse),
                 Mount ''/messages/'' (handle_post_message sse)]\<rparr>)"

definition calendar_create_starlette_app :: "'srv \<Rightarrow> bool \<Rightarrow> 'srv starlette" where
  "calendar_create_starlette_app mcp_server dbg =
     (let sse = SseServerTransport ''/messages/'' in
      \<lparr>debug = dbg,
       routes = [Route ''/sse'' (handle_sse mcp_server sse),
                 Mount ''/messages/'' (handle_post_message sse)]\<rparr>)"

definition drive_create_starlette_app :: "'srv \<Rightarrow> bool \<Rightarrow> 'srv starlette" where
  "drive_create_starlette_app mcp_server dbg =
     (let sse = SseServerTransport ''/messages/'' in
      \<lparr>debug = dbg,
       routes = [Route ''/sse'' (handle_sse mcp_server sse),
                 Mount ''/messages/'' (handle_post_message sse)]\<rparr>)"

definition jira_create_starlette_app :: "'srv \<Rightarrow> bool \<Rightarrow> 'srv starlette" where
  "jira_create_starlette_app mcp_server dbg =
     (let sse = SseServerTransport ''/messages/'' in
      \<lparr>debug = dbg,
       routes = [Route ''/sse'' (handle_sse mcp_server sse),
                 Mount ''/messages/'' (handle_post_message sse)]\<rparr>)"

definition video_create_starlette_app :: "'srv \<Rightarrow> bool \<Rightarrow> 'srv starlette" where
  "video_create_starlette_app mcp_server dbg =
     (let sse = SseServerTransport ''/messages/'' in
      \<lparr>debug = dbg,
       routes = [Route ''/sse'' (handle_sse mcp_server sse),
                 Mount ''/messages/'' (handle_post_message sse)]\<rparr>)"

fun create_starlette_app :: "server \<Rightarrow> 'srv \<Rightarrow> bool \<Rightarrow> 'srv starlette" where
  "create_starlette_app GmailServer = gmail_create_starlette_app"
| "create_starlette_app CalendarServer = calendar_create_starlette_app"
| "create_starlette_app DriveServer = drive_create_starlette_app"
| "create_starlette_app JiraServer = jira_create_starlette_app"
| "create_starlette_app VideoServer = video_create_starlette_app"

lemmas create_starlette_app_defs =
  gmail_create_starlette_app_def calendar_create_starlette_app_def
  drive_create_starlette_app_def jira_create_starlette_app_def
  video_create_starlette_app_def

text \<open>
  Claim C7. For every server that defines it, \<open>create_starlette_app\<close> returns an application
  whose route table has exactly two entries, a \<open>Route\<close> at \<open>/sse\<close> serving the SSE connection
  handler and a \<open>Mount\<close> at \<open>/messages/\<close> serving the POST message handler of the same SSE
  transport, and any two servers build the same application from the same arguments.
\<close>

theorem create_starlette_app_routes:
  "routes (create_starlette_app s mcp_server dbg) =
     [Route ''/sse'' (handle_sse mcp_server (SseServerTransport ''/messages/'')),
      Mount ''/messages/'' (handle_post_message (SseServerTransport ''/messages/''))]
   \<and> length (routes (create_starlette_app s mcp_server dbg)) = 2
   \<and> debug (create_starlette_app s mcp_server dbg) = dbg
   \<and> create_starlette_app s mcp_server dbg = create_starlette_app s' mcp_server dbg"
  by (cases s; cases s') (simp_all add: create_starlette_app_defs Let_def)

section \<open>Python values and exceptions\<close>

text \<open>
  The servers handle decoded JSON (the vendor APIs' responses) with Python's dynamic
  operations, and every failure of such an operation is an exception that some
  \<open>except Exception\<close> clause turns into an error response. \<open>pyval\<close> holds the values a JSON
  decoder produces (numbers are integers here; \<open>PNone\<close> is both \<open>None\<close> and JSON \<open>null\<close>).
  A \<open>PDict\<close> lists the items of a dict in insertion order, with distinct keys.
\<close>

datatype pyval =
    PNone
  | PBool bool
  | PInt int
  | PStr string
  | PList "pyval list"
  | PDict "(string \<times> pyval) list"

text \<open>
  An exception carries what \<open>str(e)\<close> is made of: an \<open>AttributeError\<close> the type of the
  object and the attribute it lacks, a \<open>KeyError\<close> the \<open>repr\<close> of the key, an \<open>IndexError\<close>
  and a \<open>TypeError\<close> their message (those of CPython 3.11 to 3.13), and an exception of
  a vendor library (\<open>OtherError\<close>) its message. The text of a pydantic \<open>ValidationError\<close>
  names the fields, the rejected input and the version of the library; it is not
  modelled, and \<open>ValidationError\<close> stands for it.
\<close>

datatype exn =
    AttributeError string string
  | KeyError string
  | IndexError string
  | TypeError string
  | ValidationError
  | OtherError string

definition quote :: char where
  "quote = CHR 0x27"

definition double_quote :: char where
  "double_quote = CHR 0x22"

definition quoted :: "string \<Rightarrow> string" where
  "quoted s = [quote] @ s @ [quote]"

text \<open>\<open>str(e)\<close>.\<close>

fun str_exn :: "exn \<Rightarrow> string" where
  "str_exn (AttributeError ty a) = quoted ty @ '' object has no attribute '' @ quoted a"
| "str_exn (KeyError r) = r"
| "str_exn (IndexError m) = m"
| "str_exn (TypeError m) = m"
| "str_exn ValidationError = ''ValidationError''"
| "str_exn (OtherError m) = m"

text \<open>\<open>type(v).__name__\<close>, and \<open>repr(k)\<close> of a key made of letters, digits and
  underscores, as are all the keys the code looks up.\<close>

fun type_name :: "pyval \<Rightarrow> string" where
  "type_name PNone = ''NoneType''"
| "type_name (PBool b) = ''bool''"
| "type_name (PInt i) = ''int''"
| "type_name (PStr s) = ''str''"
| "type_name (PList xs) = ''list''"
| "type_name (PDict kvs) = ''dict''"

definition repr_key :: "string \<Rightarrow> string" where
  "repr_key k = quoted k"

definition not_subscriptable :: "pyval \<Rightarrow> exn" where
  "not_subscriptable v = TypeError (quoted (type_name v) @ '' object is not subscriptable'')"

definition not_iterable :: "pyval \<Rightarrow> exn" where
  "not_iterable v = TypeError (quoted (type_name v) @ '' object is not iterable'')"

text \<open>Sequencing of computations that may raise: the first exception ends the block.\<close>

primrec bindE :: "exn + 'a \<Rightarrow> ('a \<Rightarrow> exn + 'b) \<Rightarrow> exn + 'b" where
  "bindE (Inl e) f = Inl e"
| "bindE (Inr v) f = f v"

text \<open>Truth value testing (\<open>if x:\<close>, \<open>not x\<close>, \<open>x or y\<close>).\<close>

fun py_truthy :: "pyval \<Rightarrow> bool" where
  "py_truthy PNone = False"
| "py_truthy (PBool b) = b"
| "py_truthy (PInt i) = (i \<noteq> 0)"
| "py_truthy (PStr s) = (s \<noteq> [])"
| "py_truthy (PList xs) = (xs \<noteq> [])"
| "py_truthy (PDict kvs) = (kvs \<noteq> [])"

text \<open>\<open>x.get(k, d)\<close>: only a dict has the method.\<close>

fun py_get :: "pyval \<Rightarrow> string \<Rightarrow> pyval \<Rightarrow> exn + pyval" where
  "py_get (PDict kvs) k d = Inr (case map_of kvs k of Some v \<Rightarrow> v | None \<Rightarrow> d)"
| "py_get v k d = Inl (AttributeError (type_name v) ''get'')"

text \<open>\<open>x[k]\<close> with a string key.\<close>

fun py_getitem :: "pyval \<Rightarrow> string \<Rightarrow> exn + pyval" where
  "py_getitem (PDict kvs) k =
     (case map_of kvs k of Some v \<Rightarrow> Inr v | None \<Rightarrow> Inl (KeyError (repr_key k)))"
| "py_getitem (PList xs) k =
     Inl (TypeError ''list indices must be integers or slices, not str'')"
| "py_getitem (PStr s) k =
     Inl (TypeError (''string indices must be integers, not '' @ quoted ''str''))"
| "py_getitem v k = Inl (not_subscriptable v)"

text \<open>\<open>k in x\<close> with a string \<open>k\<close>: a key of a dict, an element of a list, a substring
  of a string; the other values are not containers.\<close>

fun starts_with :: "string \<Rightarrow> string \<Rightarrow> bool" where
  "starts_with [] s = True"
| "starts_with (c # k) [] = False"
| "starts_with (c # k) (d # s) = (c = d \<and> starts_with k s)"

fun is_substring :: "string \<Rightarrow> string \<Rightarrow> bool" where
  "is_substring k [] = (k = [])"
| "is_substring k (c # s) = (starts_with k (c # s) \<or> is_substring k s)"

fun py_contains :: "string \<Rightarrow> pyval \<Rightarrow> exn + bool" where
  "py_contains k (PDict kvs) = Inr (k \<in> set (map fst kvs))"
| "py_contains k (PList xs) = Inr (PStr k \<in> set xs)"
| "py_contains k (PStr s) = Inr (is_substring k s)"
| "py_contains k v =
     Inl (TypeError (''argument of type '' @ quoted (type_name v) @ '' is not iterable''))"

text \<open>The items a \<open>for\<close> loop visits: the elements of a list, the keys of a dict, the
  characters of a string.\<close>

fun py_iter :: "pyval \<Rightarrow> exn + pyval list" where
  "py_iter (PList xs) = Inr xs"
| "py_iter (PDict kvs) = Inr (map (\<lambda>kv. PStr (fst kv)) kvs)"
| "py_iter (PStr s) = Inr (map (\<lambda>c. PStr [c]) s)"
| "py_iter v = Inl (not_iterable v)"

text \<open>\<open>s += v\<close> on a string \<open>s\<close>.\<close>

fun py_str_add :: "string \<Rightarrow> pyval \<Rightarrow> exn + string" where
  "py_str_add s (PStr t) = Inr (s @ t)"
| "py_str_add s v =
     Inl (TypeError (''can only concatenate str (not '' @ [double_quote] @ type_name v
                     @ [double_quote] @ '') to str''))"

text \<open>A pydantic (version 2, which the MCP SDK requires) field of type \<open>str\<close> takes a string
  and nothing else of what a JSON decoder produces.\<close>

fun pydantic_str :: "pyval \<Rightarrow> exn + string" where
  "pydantic_str (PStr s) = Inr s"
| "pydantic_str _ = Inl ValidationError"

text \<open>An \<open>Optional[str]\<close> as a value.\<close>

fun of_opt :: "string option \<Rightarrow> pyval" where
  "of_opt None = PNone"
| "of_opt (Some s) = PStr s"

definition newline :: char where
  "newline = CHR 0x0A"

text \<open>\<open>str(n)\<close> of an integer, and an \<open>Optional[str]\<close> inside an f-string.\<close>

function str_nat :: "nat \<Rightarrow> string" where
  "str_nat n =
     (if n < 10 then [char_of (48 + n)]
      else str_nat (n div 10) @ [char_of (48 + n mod 10)])"
  by pat_completeness auto
termination
  by (relation "measure id") auto

definition str_int :: "int \<Rightarrow> string" where
  "str_int i = (if i < 0 then ''-'' @ str_nat (nat (- i)) else str_nat (nat i))"

fun str_opt :: "string option \<Rightarrow> string" where
  "str_opt None = ''None''"
| "str_opt (Some s) = s"

text \<open>Truth value of an \<open>Optional[str]\<close>, and \<open>a or b\<close> on two of them.\<close>

fun truthy_opt :: "string option \<Rightarrow> bool" where
  "truthy_opt None = False"
| "truthy_opt (Some s) = (s \<noteq> [])"

definition or_opt :: "string option \<Rightarrow> string option \<Rightarrow> string option" where
  "or_opt a b = (if truthy_opt a then a else b)"

text \<open>\<open>sep.join(xs)\<close>.\<close>

fun join :: "string \<Rightarrow> string list \<Rightarrow> string" where
  "join sep [] = []"
| "join sep [x] = x"
| "join sep (x # y # ys) = x @ sep @ join sep (y # ys)"

section \<open>The Jira server: \<open>extract_jira_issue\<close>\<close>

text \<open>
  \<open>jira_mcp_server.py\<close>, lines 26 to 126. The environment (\<open>os.getenv\<close>) and the HTTP client
  (\<open>requests.get\<close>) are parameters; the function returns the URLs it requested together
  with its response. \<open>resp_json\<close> is the outcome of \<open>response.json()\<close>, which raises on a body
  that is not JSON.
\<close>

record http_response =
  status_code :: int
  resp_text :: string
  resp_json :: "exn + pyval"

record JiraIssueResponse =
  summary :: string
  description :: string
  error :: "string option"

text \<open>The inner loop, lines 105 to 107, on the text accumulated so far.\<close>

fun text_content_loop :: "string \<Rightarrow> pyval list \<Rightarrow> exn + string" where
  "text_content_loop description_text [] = Inr description_text"
| "text_content_loop description_text (text_content # rest) =
     bindE (py_get text_content ''type'' PNone) (\<lambda>ty.
       if ty = PStr ''text'' then
         bindE (py_get text_content ''text'' (PStr [])) (\<lambda>t.
         bindE (py_str_add description_text t) (\<lambda>description_text'.
           text_content_loop description_text' rest))
       else text_content_loop description_text rest)"

text \<open>The outer loop, lines 103 to 108. The \<open>and\<close> of line 104 evaluates
  \<open>"content" in content\<close> only for an element whose type is \<open>paragraph\<close>.\<close>

fun content_loop :: "string \<Rightarrow> pyval list \<Rightarrow> exn + string" where
  "content_loop description_text [] = Inr description_text"
| "content_loop description_text (content # rest) =
     bindE (py_get content ''type'' PNone) (\<lambda>ty.
       if ty = PStr ''paragraph'' then
         bindE (py_contains ''content'' content) (\<lambda>has.
           if has then
             bindE (py_get content ''content'' (PList [])) (\<lambda>inner.
             bindE (py_iter inner) (\<lambda>text_contents.
             bindE (text_content_loop description_text text_contents) (\<lambda>description_text'.
               content_loop (description_text' @ [newline]) rest)))
           else content_loop description_text rest)
       else content_loop description_text rest)"

text \<open>Lines 101 to 109: the description is replaced by its text when it is a dict with a
  \<open>content\<close> key, and kept as it is otherwise.\<close>

fun extract_description :: "pyval \<Rightarrow> exn + pyval" where
  "extract_description (PDict kvs) =
     (if ''content'' \<in> set (map fst kvs) then
        bindE (py_get (PDict kvs) ''content'' (PList [])) (\<lambda>c.
        bindE (py_iter c) (\<lambda>contents.
        bindE (content_loop [] contents) (\<lambda>description_text.
          Inr (PStr description_text))))
      else Inr (PDict kvs))"
| "extract_description d = Inr d"

text \<open>Lines 93 to 115, after a response with status 200.\<close>

definition parse_issue :: "http_response \<Rightarrow> exn + JiraIssueResponse" where
  "parse_issue response =
     bindE (resp_json response) (\<lambda>issue_data.
     bindE (py_get issue_data ''fields'' (PDict [])) (\<lambda>fields.
     bindE (py_get fields ''summary'' (PStr [])) (\<lambda>summary_v.
     bindE (py_get fields ''description'' (PStr [])) (\<lambda>description_v.
     bindE (extract_description description_v) (\<lambda>description_v'.
     bindE (pydantic_str summary_v) (\<lambda>s.
     bindE (pydantic_str description_v') (\<lambda>d.
       Inr \<lparr>summary = s, description = d, error = None\<rparr>)))))))"

definition missing_vars :: "string option \<Rightarrow> string option \<Rightarrow> string option \<Rightarrow> string list" where
  "missing_vars jira_base_url jira_email jira_api_token =
     (if \<not> truthy_opt jira_base_url then [''JIRA_BASE_URL/JIRA_INSTANCE_URL''] else []) @
     (if \<not> truthy_opt jira_email then [''JIRA_EMAIL/JIRA_USERNAME''] else []) @
     (if \<not> truthy_opt jira_api_token then [''JIRA_API_TOKEN''] else [])"

definition extract_jira_issue ::
  "(string \<Rightarrow> string option) \<Rightarrow> (string \<Rightarrow> string \<times> string \<Rightarrow> exn + http_response) \<Rightarrow>
   string \<Rightarrow> string list \<times> JiraIssueResponse" where
  "extract_jira_issue getenv requests_get issue_key =
     (let jira_base_url = or_opt (getenv ''JIRA_BASE_URL'') (getenv ''JIRA_INSTANCE_URL'');
          jira_email = or_opt (getenv ''JIRA_EMAIL'') (getenv ''JIRA_USERNAME'');
          jira_api_token = getenv ''JIRA_API_TOKEN''
      in
      if \<not> truthy_opt jira_base_url \<or> \<not> truthy_opt jira_email \<or> \<not> truthy_opt jira_api_token
      then
        ([], \<lparr>summary = [], description = [],
              error = Some (''Jira credentials not found in environment variables: '' @
                join '', '' (missing_vars jira_base_url jira_email jira_api_token))\<rparr>)
      else
        let api_url = str_opt jira_base_url @ ''/rest/api/3/issue/'' @ issue_key;
            body =
              bindE (requests_get api_url (str_opt jira_email, str_opt jira_api_token))
                (\<lambda>response.
                  if status_code response \<noteq> 200 then
                    Inr \<lparr>summary = [], description = [],
                         error = Some (''Failed to fetch Jira issue: '' @
                           str_int (status_code response) @ '' - '' @ resp_text response)\<rparr>
                  else parse_issue response)
        in
        ([api_url],
         case body of
           Inr r \<Rightarrow> r
         | Inl e \<Rightarrow> \<lparr>summary = [], description = [],
                      error = Some (''Error extracting Jira issue: '' @ str_exn e)\<rparr>))"

subsection \<open>What the description is, in the words of the claim and as the code has it\<close>

text \<open>
  \<open>adf_text_claimed\<close> follows the specification: the concatenation, over each top-level
  content element of type \<open>paragraph\<close>, of the paragraph's text-node contents followed by a
  newline. \<open>adf_text\<close> differs in one point, the guard of line 104: only a paragraph that has
  a \<open>content\<close> key contributes. \<open>paragraph_ok\<close> describes a well-formed document: the
  elements are dicts, the \<open>content\<close> of a paragraph is a list of dicts, and the \<open>text\<close> of a
  text node is a string.
\<close>


definition is_dict :: "pyval \<Rightarrow> bool" where
  "is_dict v = (case v of PDict kvs \<Rightarrow> True | _ \<Rightarrow> False)"

definition has_type :: "string \<Rightarrow> pyval \<Rightarrow> bool" where
  "has_type ty v = (py_get v ''type'' PNone = Inr (PStr ty))"

definition has_content :: "pyval \<Rightarrow> bool" where
  "has_content v = (py_contains ''content'' v = Inr True)"

definition node_text :: "pyval \<Rightarrow> string" where
  "node_text t = (case py_get t ''text'' (PStr []) of Inr (PStr s) \<Rightarrow> s | _ \<Rightarrow> [])"

definition text_nodes :: "pyval \<Rightarrow> pyval list" where
  "text_nodes p =
     (case py_get p ''content'' (PList []) of
        Inr (PList ts) \<Rightarrow> filter (has_type ''text'') ts
      | _ \<Rightarrow> [])"

definition paragraph_text :: "pyval \<Rightarrow> string" where
  "paragraph_text p = concat (map node_text (text_nodes p)) @ [newline]"

definition adf_text_claimed :: "pyval list \<Rightarrow> string" where
  "adf_text_claimed contents =
     concat (map paragraph_text (filter (has_type ''paragraph'') contents))"

definition adf_text :: "pyval list \<Rightarrow> string" where
  "adf_text contents =
     concat (map paragraph_text
       (filter (\<lambda>c. has_type ''paragraph'' c \<and> has_content c) contents))"

definition text_node_ok :: "pyval \<Rightarrow> bool" where
  "text_node_ok t =
     (is_dict t \<and>
      (if has_type ''text'' t
       then (case py_get t ''text'' (PStr []) of Inr (PStr s) \<Rightarrow> True | _ \<Rightarrow> False)
       else True))"

definition paragraph_ok :: "pyval \<Rightarrow> bool" where
  "paragraph_ok c =
     (is_dict c \<and>
      (if has_type ''paragraph'' c \<and> has_content c
       then (case py_get c ''content'' (PList []) of
               Inr (PList ts) \<Rightarrow> list_all text_node_ok ts
             | _ \<Rightarrow> False)
       else True))"

subsection \<open>The loops compute the text of a well-formed document\<close>

lemma text_content_loop_ok:
  "list_all text_node_ok ts \<Longrightarrow>
   text_content_loop acc ts = Inr (acc @ concat (map node_text (filter (has_type ''text'') ts)))"
proof (induction ts arbitrary: acc)
  case Nil
  then show ?case by simp
next
  case (Cons t ts)
  then obtain kvs where t: "t = PDict kvs"
    by (cases t) (simp_all add: text_node_ok_def is_dict_def)
  from Cons.prems have ok: "text_node_ok t" and rest: "list_all text_node_ok ts" by simp_all
  show ?case
  proof (cases "has_type ''text'' t")
    case True
    with ok obtain s where s: "py_get t ''text'' (PStr []) = Inr (PStr s)"
      by (auto simp: text_node_ok_def split: sum.splits pyval.splits)
    from True have ty: "py_get t ''type'' PNone = Inr (PStr ''text'')" by (simp add: has_type_def)
    show ?thesis using True s ty Cons.IH[OF rest]
      by (simp add: node_text_def)
  next
    case False
    then have "\<exists>v. py_get t ''type'' PNone = Inr v \<and> v \<noteq> PStr ''text''"
      using t by (simp add: has_type_def)
    then show ?thesis using False Cons.IH[OF rest] by auto
  qed
qed

lemma content_loop_ok:
  "list_all paragraph_ok cs \<Longrightarrow> content_loop acc cs = Inr (acc @ adf_text cs)"
proof (induction cs arbitrary: acc)
  case Nil
  then show ?case by (simp add: adf_text_def)
next
  case (Cons c cs)
  then obtain kvs where c: "c = PDict kvs"
    by (cases c) (simp_all add: paragraph_ok_def is_dict_def)
  from Cons.prems have ok: "paragraph_ok c" and rest: "list_all paragraph_ok cs" by simp_all
  have tail: "adf_text (c # cs) =
      (if has_type ''paragraph'' c \<and> has_content c then paragraph_text c else []) @ adf_text cs"
    by (simp add: adf_text_def)
  show ?case
  proof (cases "has_type ''paragraph'' c")
    case True
    then have ty: "py_get c ''type'' PNone = Inr (PStr ''paragraph'')" by (simp add: has_type_def)
    show ?thesis
    proof (cases "has_content c")
      case hc: True
      with True ok obtain ts where ts: "py_get c ''content'' (PList []) = Inr (PList ts)"
        and tsok: "list_all text_node_ok ts"
        by (auto simp: paragraph_ok_def split: sum.splits pyval.splits)
      from hc have pc: "py_contains ''content'' c = Inr True" by (simp add: has_content_def)
      show ?thesis
        using ty pc ts text_content_loop_ok[OF tsok, of acc] Cons.IH[OF rest] True hc
        by (simp add: tail paragraph_text_def text_nodes_def)
    next
      case hc: False
      then have pc: "py_contains ''content'' c = Inr False" using c by (simp add: has_content_def)
      show ?thesis using ty pc Cons.IH[OF rest] True hc by (simp add: tail)
    qed
  next
    case False
    then have "\<exists>v. py_get c ''type'' PNone = Inr v \<and> v \<noteq> PStr ''paragraph''"
      using c by (simp add: has_type_def)
    then show ?thesis using False Cons.IH[OF rest] by (auto simp: tail)
  qed
qed

subsection \<open>Example requests\<close>

definition jira_env :: "string \<Rightarrow> string option" where
  "jira_env k =
     (if k = ''JIRA_BASE_URL'' then Some ''https://j.example''
      else if k = ''JIRA_EMAIL'' then Some ''dev@j.example''
      else if k = ''JIRA_API_TOKEN'' then Some ''secret''
      else None)"

definition empty_paragraph_issue :: pyval where
  "empty_paragraph_issue =
     PDict [(''fields'', PDict
       [(''summary'', PStr ''Crash''),
        (''description'', PDict
          [(''type'', PStr ''doc''),
           (''content'', PList [PDict [(''type'', PStr ''paragraph'')]])])])]"

definition sample_issue :: pyval where
  "sample_issue =
     PDict [(''fields'', PDict
       [(''summary'', PStr ''Crash''),
        (''description'', PDict
          [(''type'', PStr ''doc''),
           (''content'', PList
             [PDict [(''type'', PStr ''paragraph''),
                     (''content'', PList
                        [PDict [(''type'', PStr ''text''), (''text'', PStr ''ab'')],
                         PDict [(''type'', PStr ''hardBreak'')],
                         PDict [(''type'', PStr ''text''), (''text'', PStr ''cd'')]])],
              PDict [(''type'', PStr ''rule'')],
              PDict [(''type'', PStr ''paragraph'')],
              PDict [(''type'', PStr ''paragraph''),
                     (''content'', PList [PDict [(''type'', PStr ''text''), (''text'', PStr ''e'')]])]])])])]"

definition respond :: "int \<Rightarrow> string \<Rightarrow> pyval \<Rightarrow> string \<Rightarrow> string \<times> string \<Rightarrow> exn + http_response" where
  "respond code body js url auth = Inr \<lparr>status_code = code, resp_text = body, resp_json = Inr js\<rparr>"

lemma extract_description_ok:
  assumes "map_of d ''content'' = Some (PList cs)" "list_all paragraph_ok cs"
  shows "extract_description (PDict d) = Inr (PStr (adf_text cs))"
proof -
  from assms(1) have "''content'' \<in> set (map fst d)"
    by (metis map_of_eq_None_iff option.distinct(1) set_map)
  then show ?thesis using assms content_loop_ok[OF assms(2), of "[]"] by simp
qed

lemma parse_issue_ok:
  assumes "resp_json r = Inr issue_data"
    and "py_get issue_data ''fields'' (PDict []) = Inr fs"
    and "py_get fs ''summary'' (PStr []) = Inr (PStr s)"
    and "py_get fs ''description'' (PStr []) = Inr (PDict d)"
    and "map_of d ''content'' = Some (PList cs)" and "list_all paragraph_ok cs"
  shows "parse_issue r = Inr \<lparr>summary = s, description = adf_text cs, error = None\<rparr>"
  using assms(1-4) extract_description_ok[OF assms(5,6)]
  by (simp add: parse_issue_def del: extract_description.simps)

lemma extract_jira_issue_complete:
  assumes "or_opt (getenv ''JIRA_BASE_URL'') (getenv ''JIRA_INSTANCE_URL'') = Some base"
    and "or_opt (getenv ''JIRA_EMAIL'') (getenv ''JIRA_USERNAME'') = Some email"
    and "getenv ''JIRA_API_TOKEN'' = Some token"
    and "base \<noteq> []" and "email \<noteq> []" and "token \<noteq> []"
  shows "extract_jira_issue getenv requests_get issue_key =
     ([base @ ''/rest/api/3/issue/'' @ issue_key],
      case bindE (requests_get (base @ ''/rest/api/3/issue/'' @ issue_key) (email, token))
             (\<lambda>response.
                if status_code response \<noteq> 200 then
                  Inr \<lparr>summary = [], description = [],
                       error = Some (''Failed to fetch Jira issue: '' @
                         str_int (status_code response) @ '' - '' @ resp_text response)\<rparr>
                else parse_issue response) of
        Inr r \<Rightarrow> r
      | Inl e \<Rightarrow> \<lparr>summary = [], description = [],
                   error = Some (''Error extracting Jira issue: '' @ str_exn e)\<rparr>)"
  using assms by (simp add: extract_jira_issue_def Let_def)

text \<open>
  Claim C6, as amended. With complete credentials \<open>extract_jira_issue\<close> issues exactly one GET,
  to \<open>{base_url}/rest/api/3/issue/{issue_key}\<close>. On a status other than 200 it returns an
  empty summary and description and an error that is not \<open>None\<close>. On a 200 response whose
  summary is a string and whose description is a well-formed Atlassian Document Format
  dict, the description returned is the concatenation, over each top-level content element
  of type \<open>paragraph\<close> that has a \<open>content\<close> key, of the paragraph's text-node contents
  followed by a newline; everything else is dropped.
\<close>

theorem extract_jira_issue_spec:
  assumes "or_opt (getenv ''JIRA_BASE_URL'') (getenv ''JIRA_INSTANCE_URL'') = Some base"
    and "or_opt (getenv ''JIRA_EMAIL'') (getenv ''JIRA_USERNAME'') = Some email"
    and "getenv ''JIRA_API_TOKEN'' = Some token"
    and "base \<noteq> []" and "email \<noteq> []" and "token \<noteq> []"
  shows "fst (extract_jira_issue getenv requests_get issue_key) =
           [base @ ''/rest/api/3/issue/'' @ issue_key]
    \<and> (\<forall>r. requests_get (base @ ''/rest/api/3/issue/'' @ issue_key) (email, token) = Inr r
           \<and> status_code r \<noteq> 200 \<longrightarrow>
         summary (snd (extract_jira_issue getenv requests_get issue_key)) = []
         \<and> description (snd (extract_jira_issue getenv requests_get issue_key)) = []
         \<and> error (snd (extract_jira_issue getenv requests_get issue_key)) \<noteq> None)
    \<and> (\<forall>r issue_data fields s d cs.
         requests_get (base @ ''/rest/api/3/issue/'' @ issue_key) (email, token) = Inr r
         \<and> status_code r = 200 \<and> resp_json r = Inr issue_data
         \<and> py_get issue_data ''fields'' (PDict []) = Inr fields
         \<and> py_get fields ''summary'' (PStr []) = Inr (PStr s)
         \<and> py_get fields ''description'' (PStr []) = Inr (PDict d)
         \<and> map_of d ''content'' = Some (PList cs) \<and> list_all paragraph_ok cs \<longrightarrow>
         snd (extract_jira_issue getenv requests_get issue_key) =
           \<lparr>summary = s, description = adf_text cs, error = None\<rparr>)"
  unfolding extract_jira_issue_complete[OF assms]
  by (auto simp: parse_issue_ok)

text \<open>
  The theorem at two requests: a document of three paragraphs, the second without a
  \<open>content\<close> key, and an issue that does not exist.
\<close>

lemmas adf_defs =
  has_type_def has_content_def node_text_def text_nodes_def paragraph_text_def
  adf_text_def adf_text_claimed_def text_node_ok_def paragraph_ok_def is_dict_def

theorem extract_jira_issue_spec_witness:
  "fst (extract_jira_issue jira_env (respond 200 [] sample_issue) ''K-1'') =
     [''https://j.example/rest/api/3/issue/K-1'']
   \<and> snd (extract_jira_issue jira_env (respond 200 [] sample_issue) ''K-1'') =
     \<lparr>summary = ''Crash'', description = ''abcd'' @ [newline] @ ''e'' @ [newline], error = None\<rparr>
   \<and> summary (snd (extract_jira_issue jira_env (respond 404 ''gone'' PNone) ''K-1'')) = []
   \<and> description (snd (extract_jira_issue jira_env (respond 404 ''gone'' PNone) ''K-1'')) = []
   \<and> error (snd (extract_jira_issue jira_env (respond 404 ''gone'' PNone) ''K-1'')) \<noteq> None"
proof -
  have e1: "or_opt (jira_env ''JIRA_BASE_URL'') (jira_env ''JIRA_INSTANCE_URL'') = Some ''https://j.example''"
    and e2: "or_opt (jira_env ''JIRA_EMAIL'') (jira_env ''JIRA_USERNAME'') = Some ''dev@j.example''"
    and e3: "jira_env ''JIRA_API_TOKEN'' = Some ''secret''"
    by (simp_all add: jira_env_def or_opt_def)
  note ok = extract_jira_issue_spec[OF e1 e2 e3, where issue_key = "''K-1''"]
  have a: "fst (extract_jira_issue jira_env (respond 200 [] sample_issue) ''K-1'') =
     [''https://j.example/rest/api/3/issue/K-1'']"
    using ok[where requests_get = "respond 200 [] sample_issue"] by simp
  have b: "snd (extract_jira_issue jira_env (respond 200 [] sample_issue) ''K-1'') =
     \<lparr>summary = ''Crash'', description = ''abcd'' @ [newline] @ ''e'' @ [newline], error = None\<rparr>"
    using ok[where requests_get = "respond 200 [] sample_issue"]
    by (simp add: respond_def sample_issue_def adf_defs)
  have c: "summary (snd (extract_jira_issue jira_env (respond 404 ''gone'' PNone) ''K-1'')) = []
   \<and> description (snd (extract_jira_issue jira_env (respond 404 ''gone'' PNone) ''K-1'')) = []
   \<and> error (snd (extract_jira_issue jira_env (respond 404 ''gone'' PNone) ''K-1'')) \<noteq> None"
    using ok[where requests_get = "respond 404 ''gone'' PNone"] by (simp add: respond_def)
  from a b c show ?thesis by simp
qed

text \<open>
  The claim as first stated fails on a paragraph without a \<open>content\<close> key (an empty
  paragraph): the code skips it, where the claim's words give it a newline.
\<close>

theorem extract_jira_issue_counterexample:
  "snd (extract_jira_issue jira_env (respond 200 [] empty_paragraph_issue) ''K-1'') =
     \<lparr>summary = ''Crash'', description = [], error = None\<rparr>
   \<and> py_get empty_paragraph_issue ''fields'' PNone = Inr (PDict
       [(''summary'', PStr ''Crash''),
        (''description'', PDict
          [(''type'', PStr ''doc''),
           (''content'', PList [PDict [(''type'', PStr ''paragraph'')]])])])
   \<and> adf_text_claimed [PDict [(''type'', PStr ''paragraph'')]] = [newline]"
  by (simp add: extract_jira_issue_def jira_env_def or_opt_def respond_def
      empty_paragraph_issue_def parse_issue_def adf_defs)


section \<open>OAuth authentication of the Google helpers\<close>

text \<open>
  \<open>GmailHelper.authenticate\<close> (\<open>gmail_mcp_tool/helper.py\<close>, lines 42 to 118) and
  \<open>GoogleCalendarHelper.authenticate\<close> (\<open>google_calender_mcp_tool/calendar_helper.py\<close>, lines
  43 to 122). Everything they do goes through the vendor libraries and the file system; an
  \<open>auth_env\<close> holds the outcome of each such call, which is made at most once in a run:
  \<open>self.token_path.exists()\<close>, \<open>Credentials.from_authorized_user_file\<close>, \<open>creds.refresh\<close>
  (the state of the credentials after a refresh that did not raise),
  \<open>InstalledAppFlow.from_client_secrets_file\<close>, \<open>flow.run_local_server\<close>, writing
  \<open>creds.to_json()\<close> to the token file, and \<open>build\<close>. The functions return the boolean, the
  helper object after the call and the vendor calls made, in order.
\<close>

record creds =
  valid :: bool
  expired :: bool
  refresh_token :: "string option"

datatype auth_call =
    TokenPathExists
  | FromAuthorizedUserFile
  | Refresh
  | FromClientSecretsFile
  | RunLocalServer
  | WriteToken
  | Build string string

record 'svc auth_env =
  token_path_exists :: "exn + bool"
  from_authorized_user_file :: "exn + creds"
  refresh_outcome :: "exn + creds"
  from_client_secrets_file :: "exn + unit"
  run_local_server :: "exn + creds"
  write_token :: "exn + unit"
  build :: "exn + 'svc"

record 'svc GmailHelper =
  service :: "'svc option"

record 'svc GoogleCalendarHelper =
  calendar_service :: "'svc option"
  credentials :: "creds option"

text \<open>\<open>not creds or not creds.valid\<close>, and \<open>creds and creds.expired and creds.refresh_token\<close>.\<close>

fun not_valid :: "creds option \<Rightarrow> bool" where
  "not_valid None = True"
| "not_valid (Some c) = (\<not> valid c)"

fun refreshable :: "creds option \<Rightarrow> bool" where
  "refreshable None = False"
| "refreshable (Some c) = (expired c \<and> truthy_opt (refresh_token c))"

subsection \<open>Gmail\<close>

text \<open>Lines 112 to 114, and the outer \<open>except\<close> of lines 116 to 118: build the service.\<close>

definition gmail_build ::
  "'svc auth_env \<Rightarrow> 'svc GmailHelper \<Rightarrow> creds option \<Rightarrow> auth_call list \<Rightarrow>
   bool \<times> 'svc GmailHelper \<times> auth_call list" where
  "gmail_build env self cs calls =
     (case build env of
        Inl e \<Rightarrow> (False, self, calls @ [Build ''gmail'' ''v1''])
      | Inr svc \<Rightarrow> (True, self\<lparr>service := Some svc\<rparr>, calls @ [Build ''gmail'' ''v1'']))"

text \<open>Lines 103 to 110: save the credentials. \<open>creds.to_json()\<close> raises on \<open>None\<close>.\<close>

definition gmail_save ::
  "'svc auth_env \<Rightarrow> 'svc GmailHelper \<Rightarrow> creds option \<Rightarrow> auth_call list \<Rightarrow>
   bool \<times> 'svc GmailHelper \<times> auth_call list" where
  "gmail_save env self cs calls =
     (case cs of
        None \<Rightarrow> (False, self, calls @ [WriteToken])
      | Some c \<Rightarrow>
          (case write_token env of
             Inl e \<Rightarrow> (False, self, calls @ [WriteToken])
           | Inr u \<Rightarrow> gmail_build env self cs (calls @ [WriteToken])))"

text \<open>Lines 70 to 101: the new authentication flow, when there are still no valid
  credentials.\<close>

definition gmail_flow ::
  "'svc auth_env \<Rightarrow> 'svc GmailHelper \<Rightarrow> creds option \<Rightarrow> auth_call list \<Rightarrow>
   bool \<times> 'svc GmailHelper \<times> auth_call list" where
  "gmail_flow env self cs calls =
     (if not_valid cs then
        (case from_client_secrets_file env of
           Inl e \<Rightarrow> (False, self, calls @ [FromClientSecretsFile])
         | Inr flow \<Rightarrow>
             (case run_local_server env of
                Inl e \<Rightarrow> (False, self, calls @ [FromClientSecretsFile, RunLocalServer])
              | Inr c \<Rightarrow>
                  gmail_save env self (Some c)
                    (calls @ [FromClientSecretsFile, RunLocalServer])))
      else gmail_save env self cs calls)"

text \<open>Lines 59 to 114, with the credentials loaded (or \<open>None\<close>). A refresh that raises
  sets \<open>creds = None\<close>.\<close>

definition gmail_with_creds ::
  "'svc auth_env \<Rightarrow> 'svc GmailHelper \<Rightarrow> creds option \<Rightarrow> auth_call list \<Rightarrow>
   bool \<times> 'svc GmailHelper \<times> auth_call list" where
  "gmail_with_creds env self cs calls =
     (if not_valid cs then
        (if refreshable cs then
           (case refresh_outcome env of
              Inl e \<Rightarrow> gmail_flow env self None (calls @ [Refresh])
            | Inr c \<Rightarrow> gmail_flow env self (Some c) (calls @ [Refresh]))
         else gmail_flow env self cs calls)
      else gmail_build env self cs calls)"

text \<open>Lines 48 to 57: load the credentials when the token file exists.\<close>

definition gmail_authenticate ::
  "'svc auth_env \<Rightarrow> 'svc GmailHelper \<Rightarrow> bool \<times> 'svc GmailHelper \<times> auth_call list" where
  "gmail_authenticate env self =
     (case token_path_exists env of
        Inl e \<Rightarrow> (False, self, [TokenPathExists])
      | Inr False \<Rightarrow> gmail_with_creds env self None [TokenPathExists]
      | Inr True \<Rightarrow>
          (case from_authorized_user_file env of
             Inl e \<Rightarrow> (False, self, [TokenPathExists, FromAuthorizedUserFile])
           | Inr c \<Rightarrow>
               gmail_with_creds env self (Some c) [TokenPathExists, FromAuthorizedUserFile]))"

subsection \<open>Google Calendar\<close>

text \<open>Lines 113 to 118, and the outer \<open>except\<close> of lines 120 to 122: store the credentials,
  then build the service. The credentials stay stored when \<open>build\<close> raises.\<close>

definition calendar_build ::
  "'svc auth_env \<Rightarrow> 'svc GoogleCalendarHelper \<Rightarrow> creds option \<Rightarrow> auth_call list \<Rightarrow>
   bool \<times> 'svc GoogleCalendarHelper \<times> auth_call list" where
  "calendar_build env self cs calls =
     (let self' = self\<lparr>credentials := cs\<rparr> in
      case build env of
        Inl e \<Rightarrow> (False, self', calls @ [Build ''calendar'' ''v3''])
      | Inr svc \<Rightarrow>
          (True, self'\<lparr>calendar_service := Some svc\<rparr>, calls @ [Build ''calendar'' ''v3'']))"

text \<open>Lines 104 to 111: save the credentials. \<open>creds.to_json()\<close> raises on \<open>None\<close>.\<close>

definition calendar_save ::
  "'svc auth_env \<Rightarrow> 'svc GoogleCalendarHelper \<Rightarrow> creds option \<Rightarrow> auth_call list \<Rightarrow>
   bool \<times> 'svc GoogleCalendarHelper \<times> auth_call list" where
  "calendar_save env self cs calls =
     (case cs of
        None \<Rightarrow> (False, self, calls @ [WriteToken])
      | Some c \<Rightarrow>
          (case write_token env of
             Inl e \<Rightarrow> (False, self, calls @ [WriteToken])
           | Inr u \<Rightarrow> calendar_build env self cs (calls @ [WriteToken])))"

text \<open>Lines 71 to 102: the new authentication flow, when there are still no valid
  credentials.\<close>

definition calendar_flow ::
  "'svc auth_env \<Rightarrow> 'svc GoogleCalendarHelper \<Rightarrow> creds option \<Rightarrow> auth_call list \<Rightarrow>
   bool \<times> 'svc GoogleCalendarHelper \<times> auth_call list" where
  "calendar_flow env self cs calls =
     (if not_valid cs then
        (case from_client_secrets_file env of
           Inl e \<Rightarrow> (False, self, calls @ [FromClientSecretsFile])
         | Inr flow \<Rightarrow>
             (case run_local_server env of
                Inl e \<Rightarrow> (False, self, calls @ [FromClientSecretsFile, RunLocalServer])
              | Inr c \<Rightarrow>
                  calendar_save env self (Some c)
                    (calls @ [FromClientSecretsFile, RunLocalServer])))
      else calendar_save env self cs calls)"

text \<open>Lines 60 to 118, with the credentials loaded (or \<open>None\<close>). A refresh that raises
  sets \<open>creds = None\<close>.\<close>

definition calendar_with_creds ::
  "'svc auth_env \<Rightarrow> 'svc GoogleCalendarHelper \<Rightarrow> creds option \<Rightarrow> auth_call list \<Rightarrow>
   bool \<times> 'svc GoogleCalendarHelper \<times> auth_call list" where
  "calendar_with_creds env self cs calls =
     (if not_valid cs then
        (if refreshable cs then
           (case refresh_outcome env of
              Inl e \<Rightarrow> calendar_flow env self None (calls @ [Refresh])
            | Inr c \<Rightarrow> calendar_flow env self (Some c) (calls @ [Refresh]))
         else calendar_flow env self cs calls)
      else calendar_build env self cs calls)"

text \<open>Lines 49 to 58: load the credentials when the token file exists.\<close>

definition calendar_authenticate ::
  "'svc auth_env \<Rightarrow> 'svc GoogleCalendarHelper \<Rightarrow> bool \<times> 'svc GoogleCalendarHelper \<times> auth_call list" where
  "calendar_authenticate env self =
     (case token_path_exists env of
        Inl e \<Rightarrow> (False, self, [TokenPathExists])
      | Inr False \<Rightarrow> calendar_with_creds env self None [TokenPathExists]
      | Inr True \<Rightarrow>
          (case from_authorized_user_file env of
             Inl e \<Rightarrow> (False, self, [TokenPathExists, FromAuthorizedUserFile])
           | Inr c \<Rightarrow>
               calendar_with_creds env self (Some c) [TokenPathExists, FromAuthorizedUserFile]))"

subsection \<open>The two methods agree\<close>

text \<open>The calls without the arguments of \<open>build\<close>, which name the API.\<close>

fun call_kind :: "auth_call \<Rightarrow> auth_call" where
  "call_kind (Build api version) = Build [] []"
| "call_kind c = c"

lemma gmail_calendar_build:
  "fst (gmail_build env g cs calls) = fst (calendar_build env c cs calls)
   \<and> map call_kind (snd (snd (gmail_build env g cs calls))) =
     map call_kind (snd (snd (calendar_build env c cs calls)))"
  by (simp add: gmail_build_def calendar_build_def Let_def split: sum.splits)

lemma gmail_calendar_save:
  "fst (gmail_save env g cs calls) = fst (calendar_save env c cs calls)
   \<and> map call_kind (snd (snd (gmail_save env g cs calls))) =
     map call_kind (snd (snd (calendar_save env c cs calls)))"
  by (simp add: gmail_save_def calendar_save_def gmail_calendar_build
      split: sum.splits option.splits)

lemma gmail_calendar_flow:
  "fst (gmail_flow env g cs calls) = fst (calendar_flow env c cs calls)
   \<and> map call_kind (snd (snd (gmail_flow env g cs calls))) =
     map call_kind (snd (snd (calendar_flow env c cs calls)))"
  by (simp add: gmail_flow_def calendar_flow_def gmail_calendar_save split: sum.splits)

lemma gmail_calendar_with_creds:
  "fst (gmail_with_creds env g cs calls) = fst (calendar_with_creds env c cs calls)
   \<and> map call_kind (snd (snd (gmail_with_creds env g cs calls))) =
     map call_kind (snd (snd (calendar_with_creds env c cs calls)))"
  by (simp add: gmail_with_creds_def calendar_with_creds_def gmail_calendar_flow
      gmail_calendar_build split: sum.splits)

lemma refresh_in_build:
  "Refresh \<in> set (snd (snd (gmail_build env g cs calls))) = (Refresh \<in> set calls)"
  by (simp add: gmail_build_def split: sum.splits)

lemma refresh_in_save:
  "Refresh \<in> set (snd (snd (gmail_save env g cs calls))) = (Refresh \<in> set calls)"
  by (simp add: gmail_save_def refresh_in_build split: sum.splits option.splits)

lemma refresh_in_flow:
  "Refresh \<in> set (snd (snd (gmail_flow env g cs calls))) = (Refresh \<in> set calls)"
  by (simp add: gmail_flow_def refresh_in_save split: sum.splits)

lemma refresh_in_with_creds:
  "Refresh \<in> set (snd (snd (gmail_with_creds env g cs calls))) =
     (Refresh \<in> set calls \<or> (not_valid cs \<and> refreshable cs))"
  by (simp add: gmail_with_creds_def refresh_in_flow refresh_in_build split: sum.splits)

text \<open>
  Claim C5. \<open>GmailHelper.authenticate\<close> and \<open>GoogleCalendarHelper.authenticate\<close> implement the
  same credential handling: for every outcome of the underlying vendor-library calls they
  return the same boolean and make the same calls in the same order (up to the API that
  \<open>build\<close> names), and \<open>creds.refresh\<close> is called exactly when credentials were loaded from
  the token file, are not valid, are expired and carry a refresh token.
\<close>

theorem authenticate_same_result:
  "fst (gmail_authenticate env g) = fst (calendar_authenticate env c)
   \<and> map call_kind (snd (snd (gmail_authenticate env g))) =
     map call_kind (snd (snd (calendar_authenticate env c)))
   \<and> (Refresh \<in> set (snd (snd (gmail_authenticate env g)))) =
     (\<exists>cr. token_path_exists env = Inr True \<and> from_authorized_user_file env = Inr cr
        \<and> \<not> valid cr \<and> expired cr \<and> truthy_opt (refresh_token cr))"
  by (auto simp: gmail_authenticate_def calendar_authenticate_def gmail_calendar_with_creds
      refresh_in_with_creds split: sum.splits bool.splits)

text \<open>An expired token that refreshes: both helpers refresh, save and build.\<close>

definition refreshing_env :: "nat auth_env" where
  "refreshing_env =
     \<lparr>token_path_exists = Inr True,
      from_authorized_user_file =
        Inr \<lparr>valid = False, expired = True, refresh_token = Some ''r''\<rparr>,
      refresh_outcome = Inr \<lparr>valid = True, expired = False, refresh_token = Some ''r''\<rparr>,
      from_client_secrets_file = Inl (OtherError ''no client secrets''),
      run_local_server = Inl (OtherError ''no browser''),
      write_token = Inr (),
      build = Inr 7\<rparr>"

lemma authenticate_refreshing:
  "gmail_authenticate refreshing_env \<lparr>service = None\<rparr> =
     (True, \<lparr>service = Some 7\<rparr>,
      [TokenPathExists, FromAuthorizedUserFile, Refresh, WriteToken, Build ''gmail'' ''v1''])
   \<and> fst (calendar_authenticate refreshing_env \<lparr>calendar_service = None, credentials = None\<rparr>)"
  by (simp add: gmail_authenticate_def gmail_with_creds_def gmail_flow_def gmail_save_def
      gmail_build_def calendar_authenticate_def calendar_with_creds_def calendar_flow_def
      calendar_save_def calendar_build_def refreshing_env_def)


section \<open>The Gmail helper and its server\<close>

text \<open>
  The Gmail API client (\<open>self.service\<close>) is a record of functions, one for each request the
  modelled methods make: the outcome of \<open>.execute()\<close>, decoded JSON or an exception, as a
  function of the request's parameters. Every method returns its result dict (a \<open>PDict\<close>),
  the helper object after the call (\<open>authenticate\<close> may have set \<open>self.service\<close>) and the
  API requests it issued, in order.
\<close>

record history_params =
  userId :: "string option"
  maxResults :: "int option"
  startHistoryId :: string
  historyTypes :: "string list option"
  pageToken :: "pyval option"

record gmail_api =
  getProfile :: "string option \<Rightarrow> exn + pyval"
  history_list :: "history_params \<Rightarrow> exn + pyval"
  messages_list :: "string option \<Rightarrow> int option \<Rightarrow> exn + pyval"
  messages_get :: "pyval \<Rightarrow> exn + pyval"
  labels_list :: "string option \<Rightarrow> exn + pyval"
  labels_update :: "string option \<Rightarrow> string \<Rightarrow> pyval \<Rightarrow> exn + pyval"

datatype gmail_call =
    GetProfile "string option"
  | HistoryList history_params
  | MessagesList "string option" "int option"
  | MessagesGet pyval
  | LabelsList "string option"
  | LabelsUpdate "string option" string pyval

text \<open>The first lines of every helper method:
  \<open>if not self.service: if not self.authenticate(): return {..., "error": "Failed to
  authenticate with Gmail"}\<close>. The boolean tells whether the method goes on.\<close>

definition service_or_authenticate ::
  "gmail_api auth_env \<Rightarrow> gmail_api GmailHelper \<Rightarrow> bool \<times> gmail_api GmailHelper" where
  "service_or_authenticate env self =
     (case service self of
        Some api \<Rightarrow> (True, self)
      | None \<Rightarrow> (case gmail_authenticate env self of (ok, self', calls) \<Rightarrow> (ok, self')))"

text \<open>\<open>self.service.users()\<close>: an attribute of \<open>None\<close> when there is no service.\<close>

definition the_service :: "gmail_api GmailHelper \<Rightarrow> exn + gmail_api" where
  "the_service self =
     (case service self of
        None \<Rightarrow> Inl (AttributeError ''NoneType'' ''users'')
      | Some api \<Rightarrow> Inr api)"

text \<open>An environment in which authentication cannot succeed, and one in which the user
  signs in and the client \<open>api\<close> is built.\<close>

definition no_auth_env :: "gmail_api auth_env" where
  "no_auth_env =
     \<lparr>token_path_exists = Inr False,
      from_authorized_user_file = Inl (OtherError ''no token file''),
      refresh_outcome = Inl (OtherError ''no credentials''),
      from_client_secrets_file = Inl (OtherError ''no client secrets''),
      run_local_server = Inl (OtherError ''no browser''),
      write_token = Inl (OtherError ''read-only''),
      build = Inl (OtherError ''no network'')\<rparr>"

definition sign_in_env :: "gmail_api \<Rightarrow> gmail_api auth_env" where
  "sign_in_env api =
     \<lparr>token_path_exists = Inr False,
      from_authorized_user_file = Inl (OtherError ''no token file''),
      refresh_outcome = Inl (OtherError ''no credentials''),
      from_client_secrets_file = Inr (),
      run_local_server = Inr \<lparr>valid = True, expired = False, refresh_token = Some ''r''\<rparr>,
      write_token = Inr (),
      build = Inr api\<rparr>"

text \<open>When the method goes on, there is a service.\<close>

lemma authenticate_sets_service:
  "gmail_authenticate env self = (True, self', calls) \<Longrightarrow> \<exists>api. service self' = Some api"
  by (auto simp: gmail_authenticate_def gmail_with_creds_def gmail_flow_def gmail_save_def
      gmail_build_def split: sum.splits bool.splits if_splits option.splits)

lemma service_after_authenticate:
  "fst (service_or_authenticate env self) \<Longrightarrow>
   \<exists>api. service (snd (service_or_authenticate env self)) = Some api"
  by (auto simp: service_or_authenticate_def split: option.splits prod.splits
      dest: authenticate_sets_service)

lemma sign_in_env_authenticates:
  "service_or_authenticate (sign_in_env api) \<lparr>service = None\<rparr> = (True, \<lparr>service = Some api\<rparr>)"
  by (simp add: service_or_authenticate_def sign_in_env_def gmail_authenticate_def
      gmail_with_creds_def gmail_flow_def gmail_save_def gmail_build_def)

text \<open>\<open>d[k] = v\<close> on the items of a dict: an existing key keeps its place.\<close>

fun dict_set :: "(string \<times> pyval) list \<Rightarrow> string \<Rightarrow> pyval \<Rightarrow> (string \<times> pyval) list" where
  "dict_set [] k v = [(k, v)]"
| "dict_set ((k', v') # kvs) k v =
     (if k' = k then (k, v) # kvs else (k', v') # dict_set kvs k v)"

subsection \<open>\<open>GmailHelper.list_messages\<close> (\<open>helper.py\<close>, lines 120 to 194)\<close>

text \<open>Lines 165 to 167.\<close>

fun headers_loop :: "(string \<times> pyval) list \<Rightarrow> pyval list \<Rightarrow> exn + (string \<times> pyval) list" where
  "headers_loop headers [] = Inr headers"
| "headers_loop headers (header # rest) =
     bindE (py_getitem header ''name'') (\<lambda>name.
       case name of
         PStr n \<Rightarrow>
           if n \<in> set [''Subject'', ''From'', ''Date''] then
             bindE (py_getitem header ''value'') (\<lambda>v. headers_loop (dict_set headers n v) rest)
           else headers_loop headers rest
       | _ \<Rightarrow> headers_loop headers rest)"

text \<open>Lines 156 to 173, the body of the inner \<open>try\<close> once \<open>message['id']\<close> is known.\<close>

definition process_message :: "gmail_api \<Rightarrow> pyval \<Rightarrow> exn + pyval" where
  "process_message api message_id =
     bindE (messages_get api message_id) (\<lambda>msg.
     bindE (py_getitem msg ''payload'') (\<lambda>payload.
     bindE (py_getitem payload ''headers'') (\<lambda>hs.
     bindE (py_iter hs) (\<lambda>header_list.
     bindE (headers_loop [] header_list) (\<lambda>headers.
     bindE (py_get msg ''snippet'' (PStr [])) (\<lambda>snippet.
       Inr (PDict [(''id'', message_id), (''headers'', PDict headers),
                   (''snippet'', snippet)])))))))"

text \<open>Lines 154 to 176. A message without an \<open>id\<close> raises in the \<open>try\<close> and again in its
  handler (line 175 formats \<open>message['id']\<close>), which ends the loop with that exception; any
  other failure skips the message.\<close>

fun process_messages ::
  "gmail_api \<Rightarrow> pyval list \<Rightarrow> pyval list \<Rightarrow> gmail_call list \<Rightarrow>
   (exn + pyval list) \<times> gmail_call list" where
  "process_messages api [] processed_messages calls = (Inr processed_messages, calls)"
| "process_messages api (message # rest) processed_messages calls =
     (case py_getitem message ''id'' of
        Inl e \<Rightarrow> (Inl e, calls)
      | Inr message_id \<Rightarrow>
          (case process_message api message_id of
             Inl e \<Rightarrow>
               process_messages api rest processed_messages (calls @ [MessagesGet message_id])
           | Inr item \<Rightarrow>
               process_messages api rest (processed_messages @ [item])
                 (calls @ [MessagesGet message_id])))"

definition messages_result :: "pyval list \<Rightarrow> string option \<Rightarrow> pyval" where
  "messages_result ms err = PDict [(''messages'', PList ms), (''error'', of_opt err)]"

text \<open>Lines 137 to 194, with the service at hand.\<close>

definition list_messages_try ::
  "gmail_api \<Rightarrow> string option \<Rightarrow> int option \<Rightarrow> (exn + pyval) \<times> gmail_call list" where
  "list_messages_try api query max_results =
     (let calls = [MessagesList query max_results] in
      case bindE (messages_list api query max_results) (\<lambda>response.
           bindE (py_get response ''messages'' (PList [])) (\<lambda>messages.
             if \<not> py_truthy messages then Inr None
             else bindE (py_iter messages) (\<lambda>ms. Inr (Some ms)))) of
        Inl e \<Rightarrow> (Inl e, calls)
      | Inr None \<Rightarrow>
          (Inr (messages_result []
             (Some (''No messages found matching query: '' @ str_opt query))), calls)
      | Inr (Some ms) \<Rightarrow>
          (case process_messages api ms [] calls of
             (Inl e, calls') \<Rightarrow> (Inl e, calls')
           | (Inr processed_messages, calls') \<Rightarrow>
               (if processed_messages = [] then
                  (Inr (messages_result []
                     (Some ''No messages could be processed successfully'')), calls')
                else (Inr (messages_result processed_messages None), calls'))))"

definition list_messages ::
  "gmail_api auth_env \<Rightarrow> gmail_api GmailHelper \<Rightarrow> string option \<Rightarrow> int option \<Rightarrow>
   pyval \<times> gmail_api GmailHelper \<times> gmail_call list" where
  "list_messages env self query max_results =
     (case service_or_authenticate env self of
        (False, self') \<Rightarrow>
          (messages_result [] (Some ''Failed to authenticate with Gmail''), self', [])
      | (True, self') \<Rightarrow>
          (case the_service self' of
             Inl e \<Rightarrow>
               (messages_result [] (Some (''Error listing messages: '' @ str_exn e)), self', [])
           | Inr api \<Rightarrow>
               (case list_messages_try api query max_results of
                  (Inl e, calls) \<Rightarrow>
                    (messages_result [] (Some (''Error listing messages: '' @ str_exn e)),
                     self', calls)
                | (Inr result, calls) \<Rightarrow> (result, self', calls))))"

subsection \<open>The tool \<open>list_gmail_messages\<close> (\<open>gmail_mcp_server.py\<close>, lines 40 to 84)\<close>

text \<open>
  A response object is the list of its fields. The constructors validate their arguments
  as pydantic does: \<open>Optional[str]\<close> takes \<open>None\<close> or a string, \<open>List[Dict[str, Any]]\<close> a list
  of dicts.
\<close>

type_synonym response = "(string \<times> pyval) list"

fun pydantic_opt_str :: "pyval \<Rightarrow> exn + pyval" where
  "pydantic_opt_str PNone = Inr PNone"
| "pydantic_opt_str (PStr s) = Inr (PStr s)"
| "pydantic_opt_str _ = Inl ValidationError"

fun pydantic_list_of_dict :: "pyval \<Rightarrow> exn + pyval" where
  "pydantic_list_of_dict (PList xs) =
     (if list_all is_dict xs then Inr (PList xs) else Inl ValidationError)"
| "pydantic_list_of_dict _ = Inl ValidationError"

text \<open>\<open>len(x)\<close>.\<close>

fun py_len :: "pyval \<Rightarrow> exn + nat" where
  "py_len (PList xs) = Inr (length xs)"
| "py_len (PStr s) = Inr (length s)"
| "py_len (PDict kvs) = Inr (length kvs)"
| "py_len v = Inl (TypeError (''object of type '' @ quoted (type_name v) @ '' has no len()''))"

definition GmailMessageResponse :: "pyval \<Rightarrow> pyval \<Rightarrow> exn + response" where
  "GmailMessageResponse messages err =
     bindE (pydantic_list_of_dict messages) (\<lambda>m.
     bindE (pydantic_opt_str err) (\<lambda>e.
       Inr [(''messages'', m), (''error'', e)]))"

definition list_gmail_messages ::
  "gmail_api auth_env \<Rightarrow> gmail_api GmailHelper \<Rightarrow> string option \<Rightarrow> int option \<Rightarrow>
   response \<times> gmail_api GmailHelper \<times> gmail_call list" where
  "list_gmail_messages env self query max_results =
     (case list_messages env self query max_results of
        (result, self', calls) \<Rightarrow>
          (case bindE (py_getitem result ''error'') (\<lambda>err.
                  if py_truthy err then GmailMessageResponse (PList []) err
                  else
                    bindE (py_getitem result ''messages'') (\<lambda>messages.
                    bindE (py_len messages) (\<lambda>n.
                      GmailMessageResponse messages PNone))) of
             Inr r \<Rightarrow> (r, self', calls)
           | Inl e \<Rightarrow>
               ([(''messages'', PList []),
                 (''error'', PStr (''Error in list_gmail_messages: '' @ str_exn e))],
                self', calls)))"

subsection \<open>An error exactly when there are no messages\<close>

lemma bindE_eq_Inr: "(bindE m f = Inr v) = (\<exists>x. m = Inr x \<and> f x = Inr v)"
  by (cases m) auto

lemma bindE_eq_Inl: "(bindE m f = Inl e) = (m = Inl e \<or> (\<exists>x. m = Inr x \<and> f x = Inl e))"
  by (cases m) auto

lemma process_message_dict: "process_message api message_id = Inr item \<Longrightarrow> is_dict item"
  by (auto simp: process_message_def bindE_eq_Inr is_dict_def)

lemma process_messages_dicts:
  "process_messages api ms processed calls = (Inr out, calls') \<Longrightarrow>
   list_all is_dict processed \<Longrightarrow> list_all is_dict out"
proof (induction ms arbitrary: processed calls)
  case Nil
  then show ?case by simp
next
  case (Cons m ms)
  then show ?case
    by (auto split: sum.splits dest: process_message_dict)
qed

text \<open>The shapes of the helper's result: no messages and an error message that is not
  empty, or some messages, all dicts, and no error.\<close>

definition messages_result_ok :: "pyval \<Rightarrow> bool" where
  "messages_result_ok result =
     ((\<exists>msg. msg \<noteq> [] \<and> result = messages_result [] (Some msg))
      \<or> (\<exists>ms. ms \<noteq> [] \<and> list_all is_dict ms \<and> result = messages_result ms None))"

lemma list_messages_try_ok:
  "list_messages_try api query max_results = (Inr result, calls) \<Longrightarrow> messages_result_ok result"
  by (auto simp: list_messages_try_def Let_def messages_result_ok_def
      split: sum.splits option.splits prod.splits if_splits
      dest: process_messages_dicts)

lemma list_messages_ok:
  "messages_result_ok (fst (list_messages env self query max_results))"
proof -
  have err: "\<And>msg. msg \<noteq> [] \<Longrightarrow> messages_result_ok (messages_result [] (Some msg))"
    by (auto simp: messages_result_ok_def)
  show ?thesis
    by (auto simp: list_messages_def err
        split: sum.splits prod.splits bool.splits dest: list_messages_try_ok)
qed

text \<open>When every match fails retrieval (its \<open>messages().get\<close> request raises), the loop
  of lines 154 to 176 leaves \<open>processed_messages\<close> as it was.\<close>

lemma process_messages_all_fail:
  "\<forall>m \<in> set ms. \<exists>mid e. py_getitem m ''id'' = Inr mid \<and> messages_get api mid = Inl e \<Longrightarrow>
   fst (process_messages api ms processed calls) = Inr processed"
proof (induction ms arbitrary: calls)
  case Nil
  then show ?case by simp
next
  case (Cons m ms)
  then obtain mid e where "py_getitem m ''id'' = Inr mid" "messages_get api mid = Inl e"
    by auto
  with Cons show ?case by (simp add: process_message_def)
qed

text \<open>A search whose only match cannot be retrieved.\<close>

definition failing_get_api :: gmail_api where
  "failing_get_api =
     \<lparr>getProfile = (\<lambda>u. Inl (OtherError ''unused'')),
      history_list = (\<lambda>p. Inl (OtherError ''unused'')),
      messages_list = (\<lambda>q n. Inr (PDict [(''messages'', PList [PDict [(''id'', PStr ''m1'')]])])),
      messages_get = (\<lambda>i. Inl (OtherError ''404'')),
      labels_list = (\<lambda>u. Inl (OtherError ''unused'')),
      labels_update = (\<lambda>u i b. Inl (OtherError ''unused''))\<rparr>"

text \<open>
  Claim C8. For every query (and every state of the helper and behaviour of the API), the
  response of \<open>list_gmail_messages\<close> has \<open>error\<close> equal to \<open>None\<close> if and only if its
  \<open>messages\<close> list is not empty; \<open>messages\<close> is always a list, and an error is a string that
  is not empty. In particular, with a service at hand (or provided by authentication):
  when the search request returns no matches (its response has no \<open>messages\<close>, or an empty
  list), the response is an empty \<open>messages\<close> list with the error
  \<open>No messages found matching query: ...\<close>; and when it returns matches, each with an \<open>id\<close>,
  and the retrieval (\<open>messages().get\<close>) of every one of them raises, the response is an
  empty \<open>messages\<close> list with the error \<open>No messages could be processed successfully\<close>.
\<close>

theorem list_gmail_messages_error_iff:
  "(map_of (fst (list_gmail_messages env self query max_results)) ''error'' = Some PNone) =
   (map_of (fst (list_gmail_messages env self query max_results)) ''messages'' \<noteq>
      Some (PList []))
   \<and> (\<exists>ms. map_of (fst (list_gmail_messages env self query max_results)) ''messages'' =
        Some (PList ms))
   \<and> (map_of (fst (list_gmail_messages env self query max_results)) ''error'' = Some PNone
      \<or> (\<exists>msg. msg \<noteq> [] \<and>
           map_of (fst (list_gmail_messages env self query max_results)) ''error'' =
             Some (PStr msg)))
   \<and> (\<forall>api response found.
        fst (service_or_authenticate env self)
        \<and> service (snd (service_or_authenticate env self)) = Some api
        \<and> messages_list api query max_results = Inr response
        \<and> py_get response ''messages'' (PList []) = Inr found
        \<and> \<not> py_truthy found \<longrightarrow>
        fst (list_gmail_messages env self query max_results) =
          [(''messages'', PList []),
           (''error'', PStr (''No messages found matching query: '' @ str_opt query))])
   \<and> (\<forall>api response ms.
        fst (service_or_authenticate env self)
        \<and> service (snd (service_or_authenticate env self)) = Some api
        \<and> messages_list api query max_results = Inr response
        \<and> py_get response ''messages'' (PList []) = Inr (PList ms)
        \<and> ms \<noteq> []
        \<and> (\<forall>m \<in> set ms. \<exists>mid e. py_getitem m ''id'' = Inr mid
                                \<and> messages_get api mid = Inl e) \<longrightarrow>
        fst (list_gmail_messages env self query max_results) =
          [(''messages'', PList []),
           (''error'', PStr ''No messages could be processed successfully'')])"
proof -
  obtain result self' calls where lm: "list_messages env self query max_results = (result, self', calls)"
    by (cases "list_messages env self query max_results") auto
  have "messages_result_ok result"
    using list_messages_ok[of env self query max_results] lm by simp
  then have shape:
    "(map_of (fst (list_gmail_messages env self query max_results)) ''error'' = Some PNone) =
     (map_of (fst (list_gmail_messages env self query max_results)) ''messages'' \<noteq>
        Some (PList []))
     \<and> (\<exists>ms. map_of (fst (list_gmail_messages env self query max_results)) ''messages'' =
          Some (PList ms))
     \<and> (map_of (fst (list_gmail_messages env self query max_results)) ''error'' = Some PNone
        \<or> (\<exists>msg. msg \<noteq> [] \<and>
             map_of (fst (list_gmail_messages env self query max_results)) ''error'' =
               Some (PStr msg)))"
    unfolding list_gmail_messages_def lm
    by (auto simp: messages_result_ok_def messages_result_def GmailMessageResponse_def)
  have none: "fst (list_gmail_messages env self query max_results) =
          [(''messages'', PList []),
           (''error'', PStr (''No messages found matching query: '' @ str_opt query))]"
    if h: "fst (service_or_authenticate env self)"
      "service (snd (service_or_authenticate env self)) = Some api"
      "messages_list api query max_results = Inr response"
      "py_get response ''messages'' (PList []) = Inr found"
      "\<not> py_truthy found"
    for api response found
  proof -
    obtain self1 where sa: "service_or_authenticate env self = (True, self1)"
      and sv: "service self1 = Some api"
      using h(1,2) by (cases "service_or_authenticate env self") auto
    have "list_messages_try api query max_results =
            (Inr (messages_result []
               (Some (''No messages found matching query: '' @ str_opt query))),
             [MessagesList query max_results])"
      using h(3-5) by (simp add: list_messages_try_def)
    then show ?thesis
      by (simp add: list_gmail_messages_def list_messages_def sa sv the_service_def
          messages_result_def GmailMessageResponse_def is_dict_def)
  qed
  have fail: "fst (list_gmail_messages env self query max_results) =
          [(''messages'', PList []),
           (''error'', PStr ''No messages could be processed successfully'')]"
    if h: "fst (service_or_authenticate env self)"
      "service (snd (service_or_authenticate env self)) = Some api"
      "messages_list api query max_results = Inr response"
      "py_get response ''messages'' (PList []) = Inr (PList ms)"
      "ms \<noteq> []"
      "\<forall>m \<in> set ms. \<exists>mid e. py_getitem m ''id'' = Inr mid \<and> messages_get api mid = Inl e"
    for api response ms
  proof -
    obtain self1 where sa: "service_or_authenticate env self = (True, self1)"
      and sv: "service self1 = Some api"
      using h(1,2) by (cases "service_or_authenticate env self") auto
    obtain calls' where pm:
      "process_messages api ms [] [MessagesList query max_results] = (Inr [], calls')"
      using process_messages_all_fail[OF h(6), of "[]" "[MessagesList query max_results]"]
      by (cases "process_messages api ms [] [MessagesList query max_results]") auto
    have "list_messages_try api query max_results =
            (Inr (messages_result [] (Some ''No messages could be processed successfully'')),
             calls')"
      using h(3-5) pm by (simp add: list_messages_try_def)
    then show ?thesis
      by (simp add: list_gmail_messages_def list_messages_def sa sv the_service_def
          messages_result_def GmailMessageResponse_def is_dict_def)
  qed
  from shape none fail show ?thesis by blast
qed

theorem list_gmail_messages_error_iff_witness:
  "fst (list_gmail_messages no_auth_env \<lparr>service = Some failing_get_api\<rparr> (Some ''is:unread'')
          (Some 10)) =
     [(''messages'', PList []),
      (''error'', PStr ''No messages could be processed successfully'')]"
proof -
  let ?self = "\<lparr>service = Some failing_get_api\<rparr>"
  let ?ms = "[PDict [(''id'', PStr ''m1'')]]"
  let ?response = "PDict [(''messages'', PList ?ms)]"
  have 1: "fst (service_or_authenticate no_auth_env ?self)"
    and 2: "service (snd (service_or_authenticate no_auth_env ?self)) = Some failing_get_api"
    by (simp_all add: service_or_authenticate_def)
  have 3: "messages_list failing_get_api (Some ''is:unread'') (Some 10) = Inr ?response"
    by (simp add: failing_get_api_def)
  have 4: "py_get ?response ''messages'' (PList []) = Inr (PList ?ms)" by simp
  have 5: "?ms \<noteq> []" by simp
  have 6: "\<forall>m \<in> set ?ms. \<exists>mid e. py_getitem m ''id'' = Inr mid
             \<and> messages_get failing_get_api mid = Inl e"
    by (simp add: failing_get_api_def)
  from list_gmail_messages_error_iff[of no_auth_env ?self "Some ''is:unread''" "Some 10"]
  have "\<forall>api response ms.
        fst (service_or_authenticate no_auth_env ?self)
        \<and> service (snd (service_or_authenticate no_auth_env ?self)) = Some api
        \<and> messages_list api (Some ''is:unread'') (Some 10) = Inr response
        \<and> py_get response ''messages'' (PList []) = Inr (PList ms)
        \<and> ms \<noteq> []
        \<and> (\<forall>m \<in> set ms. \<exists>mid e. py_getitem m ''id'' = Inr mid
                                \<and> messages_get api mid = Inl e) \<longrightarrow>
        fst (list_gmail_messages no_auth_env ?self (Some ''is:unread'') (Some 10)) =
          [(''messages'', PList []),
           (''error'', PStr ''No messages could be processed successfully'')]"
    by blast
  with 1 2 3 4 5 6 show ?thesis by blast
qed

lemma list_gmail_messages_all_fail:
  "list_gmail_messages env \<lparr>service = Some failing_get_api\<rparr> (Some ''is:unread'') (Some 10) =
     ([(''messages'', PList []),
       (''error'', PStr ''No messages could be processed successfully'')],
      \<lparr>service = Some failing_get_api\<rparr>,
      [MessagesList (Some ''is:unread'') (Some 10), MessagesGet (PStr ''m1'')])"
  by (simp add: list_gmail_messages_def list_messages_def service_or_authenticate_def
      the_service_def list_messages_try_def failing_get_api_def process_message_def
      messages_result_def GmailMessageResponse_def)


subsection \<open>\<open>GmailHelper.get_history\<close> (\<open>helper.py\<close>, lines 634 to 723)\<close>

definition history_result :: "pyval \<Rightarrow> pyval \<Rightarrow> string option \<Rightarrow> pyval" where
  "history_result history latest_history_id err =
     PDict [(''history'', history), (''latest_history_id'', latest_history_id),
            (''error'', of_opt err)]"

text \<open>\<open>xs.extend(v)\<close>: only a list has the method, and \<open>v\<close> is iterated.\<close>

fun py_extend :: "pyval \<Rightarrow> pyval \<Rightarrow> exn + pyval" where
  "py_extend (PList xs) v = bindE (py_iter v) (\<lambda>ys. Inr (PList (xs @ ys)))"
| "py_extend h v = Inl (AttributeError (type_name h) ''extend'')"

text \<open>In \<open>xs.extend(v)\<close> the method is looked up before \<open>v\<close> is evaluated.\<close>

fun extend_method :: "pyval \<Rightarrow> exn + unit" where
  "extend_method (PList xs) = Inr ()"
| "extend_method h = Inl (AttributeError (type_name h) ''extend'')"

text \<open>\<open>x[-1]\<close>.\<close>

fun py_last :: "pyval \<Rightarrow> exn + pyval" where
  "py_last (PList xs) =
     (if xs = [] then Inl (IndexError ''list index out of range'') else Inr (last xs))"
| "py_last (PStr s) =
     (if s = [] then Inl (IndexError ''string index out of range'') else Inr (PStr [last s]))"
| "py_last (PDict kvs) = Inl (KeyError ''-1'')"
| "py_last v = Inl (not_subscriptable v)"

text \<open>Lines 699 to 704, the pagination loop: while the last response carried a
  \<open>nextPageToken\<close>, request the next page and extend \<open>history\<close> with its records. Nothing
  bounds the number of pages, so the loop need not end: the result is \<open>None\<close> then.\<close>

partial_function (option) history_pages ::
  "gmail_api \<Rightarrow> history_params \<Rightarrow> pyval \<Rightarrow> pyval \<Rightarrow> gmail_call list \<Rightarrow>
   ((exn + pyval) \<times> gmail_call list) option" where
  "history_pages api params history next_page_token calls =
     (if py_truthy next_page_token then
        (let params' = params\<lparr>pageToken := Some next_page_token\<rparr>;
             calls' = calls @ [HistoryList params']
         in
         case history_list api params' of
           Inl e \<Rightarrow> Some (Inl e, calls')
         | Inr response \<Rightarrow>
             (case extend_method history of
                Inl e \<Rightarrow> Some (Inl e, calls')
              | Inr u \<Rightarrow>
                  (case py_get response ''history'' (PList []) of
                     Inl e \<Rightarrow> Some (Inl e, calls')
                   | Inr page \<Rightarrow>
                       (case py_extend history page of
                          Inl e \<Rightarrow> Some (Inl e, calls')
                        | Inr history' \<Rightarrow>
                            (case py_get response ''nextPageToken'' PNone of
                               Inl e \<Rightarrow> Some (Inl e, calls')
                             | Inr next_page_token' \<Rightarrow>
                                 history_pages api params' history' next_page_token'
                                   calls')))))
      else Some (Inr history, calls))"

text \<open>Lines 706 to 714, after the loop.\<close>

definition history_latest :: "pyval \<Rightarrow> string \<Rightarrow> exn + pyval" where
  "history_latest history start_history_id =
     bindE (if py_truthy history
            then bindE (py_last history) (\<lambda>r. py_getitem r ''id'')
            else Inr (PStr start_history_id)) (\<lambda>latest_id.
     bindE (py_len history) (\<lambda>n.
       Inr (history_result history latest_id None)))"

text \<open>Lines 677 to 723, with the service at hand and a start id.\<close>

definition get_history_from ::
  "gmail_api \<Rightarrow> string \<Rightarrow> string list option \<Rightarrow> int option \<Rightarrow> string option \<Rightarrow>
   ((exn + pyval) \<times> gmail_call list) option" where
  "get_history_from api start_history_id history_types max_results user_id =
     (let params = \<lparr>userId = user_id, maxResults = max_results,
                     startHistoryId = start_history_id,
                     historyTypes = (case history_types of
                                       None \<Rightarrow> None
                                     | Some ts \<Rightarrow> if ts = [] then None else Some ts),
                     pageToken = None\<rparr>;
          calls = [HistoryList params]
      in
      case history_list api params of
        Inl e \<Rightarrow> Some (Inl e, calls)
      | Inr response \<Rightarrow>
          (case py_get response ''history'' (PList []) of
             Inl e \<Rightarrow> Some (Inl e, calls)
           | Inr history \<Rightarrow>
               (case py_get response ''nextPageToken'' PNone of
                  Inl e \<Rightarrow> Some (Inl e, calls)
                | Inr next_page_token \<Rightarrow>
                    (case history_pages api params history next_page_token calls of
                       None \<Rightarrow> None
                     | Some (Inl e, calls') \<Rightarrow> Some (Inl e, calls')
                     | Some (Inr history', calls') \<Rightarrow>
                         Some (history_latest history' start_history_id, calls')))))"

text \<open>Lines 656 to 675: without a start id, the baseline from the profile.\<close>

definition get_history_baseline ::
  "gmail_api \<Rightarrow> string option \<Rightarrow> (exn + pyval) \<times> gmail_call list" where
  "get_history_baseline api user_id =
     (bindE (getProfile api user_id) (\<lambda>profile.
      bindE (py_get profile ''historyId'' PNone) (\<lambda>latest_id.
        Inr (history_result (PList []) latest_id None))),
      [GetProfile user_id])"

definition get_history ::
  "gmail_api auth_env \<Rightarrow> gmail_api GmailHelper \<Rightarrow> string option \<Rightarrow> string list option \<Rightarrow>
   int option \<Rightarrow> string option \<Rightarrow> (pyval \<times> gmail_api GmailHelper \<times> gmail_call list) option" where
  "get_history env self start_history_id history_types max_results user_id =
     (case service_or_authenticate env self of
        (False, self') \<Rightarrow>
          Some (history_result (PList []) PNone (Some ''Failed to authenticate with Gmail''),
                self', [])
      | (True, self') \<Rightarrow>
          (if \<not> truthy_opt start_history_id then
             (case the_service self' of
                Inl e \<Rightarrow>
                  Some (history_result (PList []) PNone
                          (Some (''Error getting latest historyId: '' @ str_exn e)), self', [])
              | Inr api \<Rightarrow>
                  (case get_history_baseline api user_id of
                     (Inl e, calls) \<Rightarrow>
                       Some (history_result (PList []) PNone
                               (Some (''Error getting latest historyId: '' @ str_exn e)),
                             self', calls)
                   | (Inr result, calls) \<Rightarrow> Some (result, self', calls)))
           else
             (case the_service self' of
                Inl e \<Rightarrow>
                  Some (history_result (PList []) PNone
                          (Some (''Error retrieving history: '' @ str_exn e)), self', [])
              | Inr api \<Rightarrow>
                  (case get_history_from api (str_opt start_history_id) history_types
                          max_results user_id of
                     None \<Rightarrow> None
                   | Some (Inl e, calls) \<Rightarrow>
                       Some (history_result (PList []) PNone
                               (Some (''Error retrieving history: '' @ str_exn e)),
                             self', calls)
                   | Some (Inr result, calls) \<Rightarrow> Some (result, self', calls)))))"

subsection \<open>Without a start id: the baseline\<close>

text \<open>An API whose profile request fails.\<close>

definition profile_down_api :: gmail_api where
  "profile_down_api =
     \<lparr>getProfile = (\<lambda>u. Inl (OtherError ''backend error'')),
      history_list = (\<lambda>p. Inr (PDict [])),
      messages_list = (\<lambda>q n. Inr (PDict [])),
      messages_get = (\<lambda>i. Inr (PDict [])),
      labels_list = (\<lambda>u. Inr (PDict [])),
      labels_update = (\<lambda>u i b. Inr (PDict []))\<rparr>"

definition profile_api :: "pyval \<Rightarrow> gmail_api" where
  "profile_api profile = profile_down_api\<lparr>getProfile := (\<lambda>u. Inr profile)\<rparr>"

fun is_history_list :: "gmail_call \<Rightarrow> bool" where
  "is_history_list (HistoryList p) = True"
| "is_history_list c = False"

text \<open>
  Claim C9, as amended. When \<open>start_history_id\<close> is \<open>None\<close> or empty, \<open>get_history\<close> returns,
  and it never calls \<open>history().list\<close>. If the helper has no service and authentication
  fails, it makes no request and returns an empty \<open>history\<close> list, \<open>latest_history_id\<close>
  \<open>None\<close> and the error \<open>Failed to authenticate with Gmail\<close>. Otherwise there is a service
  (at hand, or provided by authentication) and the only request is \<open>getProfile\<close>: if it
  returns a profile (a JSON object), the result has an empty \<open>history\<close> list,
  \<open>latest_history_id\<close> equal to the profile's \<open>historyId\<close> (\<open>None\<close> when the profile has
  none) and \<open>error\<close> \<open>None\<close>; if it raises, the result has an empty \<open>history\<close> list,
  \<open>latest_history_id\<close> \<open>None\<close> and the error \<open>Error getting latest historyId:\<close> followed
  by the text of the exception; and if it returns something that is not a JSON object,
  the result is of the same shape, with an error that starts in the same way.
\<close>

theorem get_history_baseline_spec:
  assumes "\<not> truthy_opt start_history_id"
  shows "\<exists>result calls.
      get_history env self start_history_id history_types max_results user_id =
        Some (result, snd (service_or_authenticate env self), calls)
      \<and> filter is_history_list calls = []
      \<and> (\<not> fst (service_or_authenticate env self) \<longrightarrow>
            calls = []
            \<and> result = history_result (PList []) PNone
                 (Some ''Failed to authenticate with Gmail''))
      \<and> (fst (service_or_authenticate env self) \<longrightarrow>
            (\<exists>api. service (snd (service_or_authenticate env self)) = Some api))
      \<and> (\<forall>api profile.
            fst (service_or_authenticate env self)
            \<and> service (snd (service_or_authenticate env self)) = Some api
            \<and> getProfile api user_id = Inr (PDict profile) \<longrightarrow>
            calls = [GetProfile user_id]
            \<and> result = history_result (PList [])
                 (case map_of profile ''historyId'' of Some v \<Rightarrow> v | None \<Rightarrow> PNone) None)
      \<and> (\<forall>api e.
            fst (service_or_authenticate env self)
            \<and> service (snd (service_or_authenticate env self)) = Some api
            \<and> getProfile api user_id = Inl e \<longrightarrow>
            calls = [GetProfile user_id]
            \<and> result = history_result (PList []) PNone
                 (Some (''Error getting latest historyId: '' @ str_exn e)))
      \<and> (\<forall>api profile.
            fst (service_or_authenticate env self)
            \<and> service (snd (service_or_authenticate env self)) = Some api
            \<and> getProfile api user_id = Inr profile \<and> \<not> is_dict profile \<longrightarrow>
            calls = [GetProfile user_id]
            \<and> (\<exists>msg. result = history_result (PList []) PNone
                   (Some (''Error getting latest historyId: '' @ msg))))
      \<and> (py_getitem result ''error'' = Inr PNone
         \<or> py_getitem result ''history'' = Inr (PList [])
           \<and> py_getitem result ''latest_history_id'' = Inr PNone)"
proof (cases "service_or_authenticate env self")
  case (Pair ok self1)
  show ?thesis
  proof (cases ok)
    case False
    with Pair assms show ?thesis
      by (simp add: get_history_def history_result_def)
  next
    case True
    with Pair service_after_authenticate[of env self] obtain api where
      sv: "service self1 = Some api" by auto
    show ?thesis
    proof (cases "getProfile api user_id")
      case (Inl e)
      with Pair True sv assms show ?thesis
        by (simp add: get_history_def get_history_baseline_def the_service_def
            history_result_def)
    next
      case (Inr profile)
      with Pair True sv assms show ?thesis
        by (cases profile)
           (simp_all add: get_history_def get_history_baseline_def the_service_def
              history_result_def is_dict_def)
    qed
  qed
qed

theorem get_history_baseline_spec_witness:
  "get_history no_auth_env
     \<lparr>service = Some (profile_api (PDict [(''emailAddress'', PStr ''a@b''),
                                          (''historyId'', PStr ''4711'')]))\<rparr>
     None None (Some 100) (Some ''me'') =
   Some (history_result (PList []) (PStr ''4711'') None,
     \<lparr>service = Some (profile_api (PDict [(''emailAddress'', PStr ''a@b''),
                                          (''historyId'', PStr ''4711'')]))\<rparr>,
     [GetProfile (Some ''me'')])"
proof -
  let ?p = "[(''emailAddress'', PStr ''a@b''), (''historyId'', PStr ''4711'')]"
  let ?self = "\<lparr>service = Some (profile_api (PDict ?p))\<rparr>"
  have t: "\<not> truthy_opt None" by simp
  have s: "service_or_authenticate no_auth_env ?self = (True, ?self)"
    by (simp add: service_or_authenticate_def)
  have p: "getProfile (profile_api (PDict ?p)) (Some ''me'') = Inr (PDict ?p)"
    by (simp add: profile_api_def)
  from get_history_baseline_spec[OF t, of no_auth_env ?self None "Some 100" "Some ''me''"]
  obtain result calls where
    g: "get_history no_auth_env ?self None None (Some 100) (Some ''me'') =
          Some (result, ?self, calls)"
    and r: "\<forall>api profile. service ?self = Some api
          \<and> getProfile api (Some ''me'') = Inr (PDict profile) \<longrightarrow>
          calls = [GetProfile (Some ''me'')]
          \<and> result = history_result (PList [])
               (case map_of profile ''historyId'' of Some v \<Rightarrow> v | None \<Rightarrow> PNone) None"
    unfolding s by auto
  from r p have "calls = [GetProfile (Some ''me'')]
      \<and> result = history_result (PList []) (PStr ''4711'') None"
    by fastforce
  with g show ?thesis by simp
qed

theorem get_history_baseline_counterexample:
  "get_history no_auth_env \<lparr>service = Some profile_down_api\<rparr> None None (Some 100) (Some ''me'') =
     Some (history_result (PList []) PNone
             (Some ''Error getting latest historyId: backend error''),
           \<lparr>service = Some profile_down_api\<rparr>, [GetProfile (Some ''me'')])
   \<and> get_history no_auth_env \<lparr>service = None\<rparr> (Some []) None (Some 100) (Some ''me'') =
     Some (history_result (PList []) PNone (Some ''Failed to authenticate with Gmail''),
           \<lparr>service = None\<rparr>, [])"
  by (simp add: get_history_def service_or_authenticate_def the_service_def
      get_history_baseline_def profile_down_api_def no_auth_env_def
      gmail_authenticate_def gmail_with_creds_def gmail_flow_def)

subsection \<open>With a start id: one request for each page\<close>

text \<open>
  \<open>page_chain api params tok pages\<close>: starting from the token \<open>tok\<close>, the API serves exactly
  the pages \<open>pages\<close>, each given by its records and the token it returns for the next page,
  and the last of these tokens (or \<open>tok\<close> itself when there are no further pages) is absent
  or empty. \<open>page_calls\<close> are the requests that fetch them.
\<close>

fun page_chain ::
  "gmail_api \<Rightarrow> history_params \<Rightarrow> pyval \<Rightarrow> (pyval list \<times> pyval) list \<Rightarrow> bool" where
  "page_chain api params tok [] = (\<not> py_truthy tok)"
| "page_chain api params tok ((records, next_tok) # rest) =
     (py_truthy tok \<and>
      (case history_list api (params\<lparr>pageToken := Some tok\<rparr>) of
         Inl e \<Rightarrow> False
       | Inr response \<Rightarrow>
           py_get response ''history'' (PList []) = Inr (PList records) \<and>
           py_get response ''nextPageToken'' PNone = Inr next_tok) \<and>
      page_chain api (params\<lparr>pageToken := Some tok\<rparr>) next_tok rest)"

fun page_calls :: "history_params \<Rightarrow> pyval \<Rightarrow> (pyval list \<times> pyval) list \<Rightarrow> gmail_call list" where
  "page_calls params tok [] = []"
| "page_calls params tok ((records, next_tok) # rest) =
     HistoryList (params\<lparr>pageToken := Some tok\<rparr>) #
     page_calls (params\<lparr>pageToken := Some tok\<rparr>) next_tok rest"

lemma length_page_calls: "length (page_calls params tok pages) = length pages"
  by (induction pages arbitrary: params tok) auto

lemma history_pages_chain:
  "page_chain api params tok pages \<Longrightarrow>
   history_pages api params (PList acc) tok calls =
     Some (Inr (PList (acc @ concat (map fst pages))), calls @ page_calls params tok pages)"
proof (induction pages arbitrary: params tok acc calls)
  case Nil
  then show ?case by (subst history_pages.simps) simp
next
  case (Cons page rest)
  obtain records next_tok where page: "page = (records, next_tok)" by (cases page)
  from Cons.prems obtain response where
    tok: "py_truthy tok"
    and resp: "history_list api (params\<lparr>pageToken := Some tok\<rparr>) = Inr response"
    and recs: "py_get response ''history'' (PList []) = Inr (PList records)"
    and nxt: "py_get response ''nextPageToken'' PNone = Inr next_tok"
    and chain: "page_chain api (params\<lparr>pageToken := Some tok\<rparr>) next_tok rest"
    by (auto simp: page split: sum.splits)
  show ?case
    by (subst history_pages.simps)
       (simp add: tok resp recs nxt page Let_def Cons.IH[OF chain])
qed

text \<open>The parameters of the first request (lines 681 to 689).\<close>

definition first_params ::
  "string \<Rightarrow> string list option \<Rightarrow> int option \<Rightarrow> string option \<Rightarrow> history_params" where
  "first_params start_history_id history_types max_results user_id =
     \<lparr>userId = user_id, maxResults = max_results, startHistoryId = start_history_id,
      historyTypes = (case history_types of
                        None \<Rightarrow> None
                      | Some ts \<Rightarrow> if ts = [] then None else Some ts),
      pageToken = None\<rparr>"

lemma get_history_from_chain:
  assumes "history_list api (first_params start ht mr uid) = Inr response"
    and "py_get response ''history'' (PList []) = Inr (PList records)"
    and "py_get response ''nextPageToken'' PNone = Inr tok"
    and "page_chain api (first_params start ht mr uid) tok pages"
  shows "get_history_from api start ht mr uid =
     Some (history_latest (PList (records @ concat (map fst pages))) start,
           HistoryList (first_params start ht mr uid) #
           page_calls (first_params start ht mr uid) tok pages)"
  using assms(1-3) history_pages_chain[OF assms(4), of records "[HistoryList (first_params start ht mr uid)]"]
  by (simp add: get_history_from_def first_params_def Let_def)

lemma history_latest_list:
  "history_latest (PList rs) s =
     (if rs = [] then Inr (history_result (PList []) (PStr s) None)
      else bindE (py_getitem (last rs) ''id'') (\<lambda>i. Inr (history_result (PList rs) i None)))"
  by (simp add: history_latest_def)

text \<open>
  Claim C1, as amended. For every call of \<open>get_history\<close> with a non-empty start id:
  if the helper has no service and authentication fails, no request is made and the
  result is the error \<open>Failed to authenticate with Gmail\<close>. Otherwise there is a service
  (at hand, or provided by authentication) and a first \<open>history().list\<close> request is made
  with the start id. If it raises, the result is an error after that one request. If it
  returns a JSON object whose \<open>history\<close>, when present, is a list, the method loops: as
  long as the latest response carries a \<open>nextPageToken\<close> that is not empty, it makes one
  more request, with that token, and appends the records of the page. When the API
  serves, from the first response on, a finite chain of further pages (each request
  returns a JSON object whose \<open>history\<close>, when present, is a list, and the last response
  has no \<open>nextPageToken\<close>), the requests are the first one followed by one for each
  further page, the returned history is the records of all the pages, in order, and
  \<open>latest_history_id\<close> is the \<open>id\<close> of the last record, or the start id when there is no
  record, with \<open>error\<close> \<open>None\<close>; only when the last record has no \<open>id\<close> is the result an
  error (\<open>Error retrieving history: ...\<close>) instead. There is a single request, whose
  records are returned as they are, exactly when the first response has no (or an empty)
  \<open>nextPageToken\<close>.
\<close>

theorem get_history_pages_spec:
  assumes "start_history_id = Some s" and "s \<noteq> []"
  shows "(\<not> fst (service_or_authenticate env self) \<longrightarrow>
        get_history env self start_history_id history_types max_results user_id =
          Some (history_result (PList []) PNone (Some ''Failed to authenticate with Gmail''),
                snd (service_or_authenticate env self), []))
   \<and> (fst (service_or_authenticate env self) \<longrightarrow>
        (\<exists>api. service (snd (service_or_authenticate env self)) = Some api))
   \<and> (\<forall>api e.
        fst (service_or_authenticate env self)
        \<and> service (snd (service_or_authenticate env self)) = Some api
        \<and> history_list api (first_params s history_types max_results user_id) = Inl e \<longrightarrow>
        get_history env self start_history_id history_types max_results user_id =
          Some (history_result (PList []) PNone
                  (Some (''Error retrieving history: '' @ str_exn e)),
                snd (service_or_authenticate env self),
                [HistoryList (first_params s history_types max_results user_id)]))
   \<and> (\<forall>api response records tok pages.
        fst (service_or_authenticate env self)
        \<and> service (snd (service_or_authenticate env self)) = Some api
        \<and> history_list api (first_params s history_types max_results user_id) = Inr response
        \<and> py_get response ''history'' (PList []) = Inr (PList records)
        \<and> py_get response ''nextPageToken'' PNone = Inr tok
        \<and> page_chain api (first_params s history_types max_results user_id) tok pages \<longrightarrow>
        (\<exists>result.
           get_history env self start_history_id history_types max_results user_id =
             Some (result, snd (service_or_authenticate env self),
                   HistoryList (first_params s history_types max_results user_id) #
                   page_calls (first_params s history_types max_results user_id) tok pages)
           \<and> length (page_calls (first_params s history_types max_results user_id) tok pages) =
               length pages
           \<and> (records @ concat (map fst pages) = [] \<longrightarrow>
                result = history_result (PList []) (PStr s) None)
           \<and> (\<forall>i. records @ concat (map fst pages) \<noteq> []
                  \<and> py_getitem (last (records @ concat (map fst pages))) ''id'' = Inr i \<longrightarrow>
                result = history_result (PList (records @ concat (map fst pages))) i None)
           \<and> (records @ concat (map fst pages) \<noteq> []
                \<and> (\<forall>i. py_getitem (last (records @ concat (map fst pages))) ''id'' \<noteq> Inr i) \<longrightarrow>
                (\<exists>msg. result = history_result (PList []) PNone
                          (Some (''Error retrieving history: '' @ msg))))
           \<and> ((pages = []) = (\<not> py_truthy tok))))"
proof (cases "service_or_authenticate env self")
  case (Pair ok self1)
  show ?thesis
  proof (cases ok)
    case False
    with Pair assms show ?thesis
      by (simp add: get_history_def)
  next
    case True
    with Pair service_after_authenticate[of env self] obtain api where
      sv: "service self1 = Some api" by auto
    have first_fails: "get_history env self start_history_id history_types max_results user_id =
          Some (history_result (PList []) PNone
                  (Some (''Error retrieving history: '' @ str_exn e)),
                self1, [HistoryList (first_params s history_types max_results user_id)])"
      if "history_list api (first_params s history_types max_results user_id) = Inl e" for e
      using that Pair True sv assms
      by (simp add: get_history_def the_service_def get_history_from_def first_params_def)
    have chain: "\<exists>result.
           get_history env self start_history_id history_types max_results user_id =
             Some (result, self1,
                   HistoryList (first_params s history_types max_results user_id) #
                   page_calls (first_params s history_types max_results user_id) tok pages)
           \<and> length (page_calls (first_params s history_types max_results user_id) tok pages) =
               length pages
           \<and> (records @ concat (map fst pages) = [] \<longrightarrow>
                result = history_result (PList []) (PStr s) None)
           \<and> (\<forall>i. records @ concat (map fst pages) \<noteq> []
                  \<and> py_getitem (last (records @ concat (map fst pages))) ''id'' = Inr i \<longrightarrow>
                result = history_result (PList (records @ concat (map fst pages))) i None)
           \<and> (records @ concat (map fst pages) \<noteq> []
                \<and> (\<forall>i. py_getitem (last (records @ concat (map fst pages))) ''id'' \<noteq> Inr i) \<longrightarrow>
                (\<exists>msg. result = history_result (PList []) PNone
                          (Some (''Error retrieving history: '' @ msg))))
           \<and> ((pages = []) = (\<not> py_truthy tok))"
      if h: "history_list api (first_params s history_types max_results user_id) = Inr response"
        "py_get response ''history'' (PList []) = Inr (PList records)"
        "py_get response ''nextPageToken'' PNone = Inr tok"
        "page_chain api (first_params s history_types max_results user_id) tok pages"
      for response records tok pages
    proof -
      let ?all = "records @ concat (map fst pages)"
      have g: "get_history_from api s history_types max_results user_id =
         Some (history_latest (PList ?all) s,
               HistoryList (first_params s history_types max_results user_id) #
               page_calls (first_params s history_types max_results user_id) tok pages)"
        by (rule get_history_from_chain[OF h])
      have d: "(pages = []) = (\<not> py_truthy tok)"
        using h(4) by (cases pages) auto
      show ?thesis
      proof (cases "history_latest (PList ?all) s")
        case (Inl e)
        then have "?all \<noteq> []" "\<forall>i. py_getitem (last ?all) ''id'' \<noteq> Inr i"
          by (auto simp: history_latest_list split: if_splits)
        with Inl g d Pair True sv assms show ?thesis
          by (auto simp: get_history_def the_service_def length_page_calls)
      next
        case (Inr result)
        with g d Pair True sv assms show ?thesis
          by (auto simp: get_history_def the_service_def length_page_calls
              history_latest_list bindE_eq_Inr split: if_splits)
      qed
    qed
    from Pair True sv first_fails chain show ?thesis
      by auto
  qed
qed

text \<open>An API that serves the history in two pages.\<close>

definition record_101 :: pyval where
  "record_101 = PDict [(''id'', PStr ''101''),
     (''messagesAdded'', PList [PDict [(''message'', PDict [(''id'', PStr ''m1'')])]])]"

definition record_102 :: pyval where
  "record_102 = PDict [(''id'', PStr ''102'')]"

definition two_page_api :: gmail_api where
  "two_page_api =
     profile_down_api\<lparr>history_list := (\<lambda>p.
       case pageToken p of
         None \<Rightarrow> Inr (PDict [(''history'', PList [record_101]),
                             (''nextPageToken'', PStr ''page2'')])
       | Some t \<Rightarrow> Inr (PDict [(''history'', PList [record_102])]))\<rparr>"

text \<open>A helper without a service signs in and reads the two pages.\<close>

theorem get_history_pages_spec_witness:
  "get_history (sign_in_env two_page_api) \<lparr>service = None\<rparr> (Some ''100'') None (Some 100)
     (Some ''me'') =
   Some (history_result (PList [record_101, record_102]) (PStr ''102'') None,
         \<lparr>service = Some two_page_api\<rparr>,
         [HistoryList (first_params ''100'' None (Some 100) (Some ''me'')),
          HistoryList ((first_params ''100'' None (Some 100) (Some ''me''))
                         \<lparr>pageToken := Some (PStr ''page2'')\<rparr>)])"
proof -
  let ?p = "first_params ''100'' None (Some 100) (Some ''me'')"
  let ?r = "PDict [(''history'', PList [record_101]), (''nextPageToken'', PStr ''page2'')]"
  let ?env = "sign_in_env two_page_api"
  let ?self = "\<lparr>service = None\<rparr> :: gmail_api GmailHelper"
  have 0: "service_or_authenticate ?env ?self = (True, \<lparr>service = Some two_page_api\<rparr>)"
    by (rule sign_in_env_authenticates)
  have 1: "history_list two_page_api ?p = Inr ?r"
    by (simp add: two_page_api_def first_params_def)
  have 2: "py_get ?r ''history'' (PList []) = Inr (PList [record_101])" by simp
  have 3: "py_get ?r ''nextPageToken'' PNone = Inr (PStr ''page2'')" by simp
  have 4: "page_chain two_page_api ?p (PStr ''page2'') [([record_102], PNone)]"
    by (simp add: two_page_api_def)
  have 6: "''100'' \<noteq> []" by simp
  have 7: "py_getitem (last ([record_101] @ concat (map fst [([record_102], PNone)]))) ''id'' =
             Inr (PStr ''102'')"
    by (simp add: record_102_def)
  from get_history_pages_spec[OF refl 6, of ?env ?self None "Some 100" "Some ''me''"]
  have "\<forall>api response records tok pages.
        fst (service_or_authenticate ?env ?self)
        \<and> service (snd (service_or_authenticate ?env ?self)) = Some api
        \<and> history_list api ?p = Inr response
        \<and> py_get response ''history'' (PList []) = Inr (PList records)
        \<and> py_get response ''nextPageToken'' PNone = Inr tok
        \<and> page_chain api ?p tok pages \<longrightarrow>
        (\<exists>result.
           get_history ?env ?self (Some ''100'') None (Some 100) (Some ''me'') =
             Some (result, snd (service_or_authenticate ?env ?self),
                   HistoryList ?p # page_calls ?p tok pages)
           \<and> (\<forall>i. records @ concat (map fst pages) \<noteq> []
                  \<and> py_getitem (last (records @ concat (map fst pages))) ''id'' = Inr i \<longrightarrow>
                result = history_result (PList (records @ concat (map fst pages))) i None))"
    by blast
  from this[rule_format, of two_page_api ?r "[record_101]" "PStr ''page2''"
      "[([record_102], PNone)]"] 0 1 2 3 4
  obtain result where
    g: "get_history ?env ?self (Some ''100'') None (Some 100) (Some ''me'') =
          Some (result, \<lparr>service = Some two_page_api\<rparr>,
                HistoryList ?p # page_calls ?p (PStr ''page2'') [([record_102], PNone)])"
    and r: "\<forall>i. [record_101] @ concat (map fst [([record_102], PNone)]) \<noteq> []
              \<and> py_getitem (last ([record_101] @ concat (map fst [([record_102], PNone)])))
                   ''id'' = Inr i \<longrightarrow>
            result = history_result
                       (PList ([record_101] @ concat (map fst [([record_102], PNone)]))) i None"
    by auto
  from r 7 have "result = history_result (PList [record_101, record_102]) (PStr ''102'') None"
    by simp
  with g show ?thesis by simp
qed

theorem get_history_single_call_counterexample:
  "(case get_history no_auth_env \<lparr>service = Some two_page_api\<rparr> (Some ''100'') None (Some 100)
           (Some ''me'') of
      None \<Rightarrow> False
    | Some (result, self', calls) \<Rightarrow>
        length (filter is_history_list calls) = 2
        \<and> py_getitem result ''history'' = Inr (PList [record_101, record_102])
        \<and> history_list two_page_api (first_params ''100'' None (Some 100) (Some ''me'')) =
            Inr (PDict [(''history'', PList [record_101]),
                        (''nextPageToken'', PStr ''page2'')]))"
proof -
  let ?p = "first_params ''100'' None (Some 100) (Some ''me'')"
  let ?r = "PDict [(''history'', PList [record_101]), (''nextPageToken'', PStr ''page2'')]"
  have 1: "history_list two_page_api ?p = Inr ?r"
    by (simp add: two_page_api_def first_params_def)
  have 4: "page_chain two_page_api ?p (PStr ''page2'') [([record_102], PNone)]"
    by (simp add: two_page_api_def)
  have "get_history_from two_page_api ''100'' None (Some 100) (Some ''me'') =
     Some (history_latest (PList ([record_101] @ concat (map fst [([record_102], PNone)]))) ''100'',
           HistoryList ?p # page_calls ?p (PStr ''page2'') [([record_102], PNone)])"
    by (rule get_history_from_chain[OF 1 _ _ 4]) simp_all
  then show ?thesis
    using 1
    by (simp add: get_history_def service_or_authenticate_def the_service_def
        history_latest_list record_102_def history_result_def)
qed

section \<open>The saved history id\<close>

text \<open>
  \<open>save_history_id\<close> and \<open>load_history_id\<close> (\<open>helper.py\<close>, lines 575 to 632) keep one id in a
  text file. The file system is a map from the paths that exist to what they name: a
  regular file with the bytes it holds, or a device (\<open>/dev/null\<close>, a terminal, a pipe),
  which does not keep what is written to it and whose reads are its own. What the
  platform decides is a parameter: whether a file can be opened for writing or for
  reading, what a read of a device gives, the codec of text files (the locale's
  encoding, which may fail and need not give back the text it encoded), the line
  separator, and \<open>str()\<close> of a list or a dict.
\<close>

datatype node = Regular string | Device

type_synonym files = "string \<rightharpoonup> node"

datatype os_name = Posix | Nt

record runtime =
  os_name :: os_name
  open_for_writing :: "string \<Rightarrow> exn option"
  encode :: "string \<Rightarrow> exn + string"
  decode :: "string \<Rightarrow> exn + string"
  open_for_reading :: "string \<Rightarrow> exn option"
  read_device :: "string \<Rightarrow> exn + string"
  str_container :: "pyval \<Rightarrow> string"

definition carriage_return :: char where
  "carriage_return = CHR 0x0D"

text \<open>\<open>os.linesep\<close>.\<close>

fun linesep :: "os_name \<Rightarrow> string" where
  "linesep Posix = [newline]"
| "linesep Nt = [carriage_return, newline]"

text \<open>A file opened with \<open>open(path, 'w')\<close> is in text mode with the default \<open>newline\<close>:
  every line feed written becomes \<open>os.linesep\<close>.\<close>

definition write_text :: "os_name \<Rightarrow> string \<Rightarrow> string" where
  "write_text os s = concat (map (\<lambda>c. if c = newline then linesep os else [c]) s)"

text \<open>A file opened with \<open>open(path, 'r')\<close> is read with universal newlines: a carriage
  return, with the line feed that follows it if there is one, is read as a line feed.\<close>

fun universal_newlines :: "string \<Rightarrow> string" where
  "universal_newlines [] = []"
| "universal_newlines [c] = (if c = carriage_return then [newline] else [c])"
| "universal_newlines (c # d # s) =
     (if c = carriage_return \<and> d = newline then newline # universal_newlines s
      else if c = carriage_return then newline # universal_newlines (d # s)
      else c # universal_newlines (d # s))"



text \<open>\<open>str(v)\<close>.\<close>

fun py_str :: "runtime \<Rightarrow> pyval \<Rightarrow> string" where
  "py_str rt (PStr s) = s"
| "py_str rt PNone = ''None''"
| "py_str rt (PBool b) = (if b then ''True'' else ''False'')"
| "py_str rt (PInt i) = str_int i"
| "py_str rt v = str_container rt v"

definition history_id_file :: string where
  "history_id_file = ''gmail_mcp_tool/last_history_id.txt''"

definition save_result :: "bool \<Rightarrow> string option \<Rightarrow> pyval" where
  "save_result success err = PDict [(''success'', PBool success), (''error'', of_opt err)]"

text \<open>The file system after a path opened with mode \<open>'w'\<close> has received the bytes: a
  regular file is created or replaced, a device stays what it is.\<close>

definition written :: "files \<Rightarrow> string \<Rightarrow> string \<Rightarrow> files" where
  "written fs file_path bytes =
     (case fs file_path of
        Some Device \<Rightarrow> fs
      | _ \<Rightarrow> fs(file_path \<mapsto> Regular bytes))"

text \<open>Lines 585 to 600. Opening the file truncates it; \<open>f.write\<close> translates the line
  feeds and encodes the text, and the bytes are written when the codec has not raised.\<close>

definition save_history_id :: "runtime \<Rightarrow> files \<Rightarrow> pyval \<Rightarrow> string \<Rightarrow> pyval \<times> files" where
  "save_history_id rt fs history_id file_path =
     (case open_for_writing rt file_path of
        Some e \<Rightarrow> (save_result False (Some (''Error saving historyId: '' @ str_exn e)), fs)
      | None \<Rightarrow>
          (case encode rt (write_text (os_name rt) (py_str rt history_id)) of
             Inl e \<Rightarrow>
               (save_result False (Some (''Error saving historyId: '' @ str_exn e)),
                written fs file_path [])
           | Inr bytes \<Rightarrow> (save_result True None, written fs file_path bytes)))"




subsection \<open>The round trip\<close>



lemma universal_newlines_id: "carriage_return \<notin> set s \<Longrightarrow> universal_newlines s = s"
  by (induction s rule: universal_newlines.induct) auto




lemma write_text_posix: "write_text Posix s = s"
  by (induction s) (auto simp: write_text_def)


text \<open>A platform on which every file can be written and read, with a codec that stores
  the text as it is, and whose devices read as empty.\<close>

definition plain_runtime :: "os_name \<Rightarrow> runtime" where
  "plain_runtime os =
     \<lparr>os_name = os, open_for_writing = (\<lambda>p. None), encode = Inr, decode = Inr,
      open_for_reading = (\<lambda>p. None), read_device = (\<lambda>p. Inr []),
      str_container = (\<lambda>v. ''[...]'')\<rparr>"




subsection \<open>The tool \<open>get_gmail_history\<close> (\<open>gmail_mcp_server.py\<close>, lines 608 to 717)\<close>

text \<open>The entries appended to \<open>processed_record['changes']\<close>: lines 657 to 663, 668 to 673,
  678 to 684 and 689 to 695.\<close>

definition message_added :: "pyval \<Rightarrow> exn + pyval" where
  "message_added msg =
     bindE (py_get msg ''message'' (PDict [])) (\<lambda>message.
     bindE (py_get message ''id'' PNone) (\<lambda>message_id.
     bindE (py_get message ''threadId'' PNone) (\<lambda>thread_id.
     bindE (py_get message ''labelIds'' (PList [])) (\<lambda>label_ids.
       Inr (PDict [(''type'', PStr ''messageAdded''), (''message_id'', message_id),
                   (''thread_id'', thread_id), (''label_ids'', label_ids)])))))"

definition message_deleted :: "pyval \<Rightarrow> exn + pyval" where
  "message_deleted msg =
     bindE (py_get msg ''message'' (PDict [])) (\<lambda>message.
     bindE (py_get message ''id'' PNone) (\<lambda>message_id.
     bindE (py_get message ''threadId'' PNone) (\<lambda>thread_id.
       Inr (PDict [(''type'', PStr ''messageDeleted''), (''message_id'', message_id),
                   (''thread_id'', thread_id)]))))"

definition label_added :: "pyval \<Rightarrow> exn + pyval" where
  "label_added label =
     bindE (py_get label ''message'' (PDict [])) (\<lambda>message.
     bindE (py_get message ''id'' PNone) (\<lambda>message_id.
     bindE (py_get message ''threadId'' PNone) (\<lambda>thread_id.
     bindE (py_get label ''labelIds'' (PList [])) (\<lambda>label_ids.
       Inr (PDict [(''type'', PStr ''labelAdded''), (''message_id'', message_id),
                   (''thread_id'', thread_id), (''label_ids'', label_ids)])))))"

definition label_removed :: "pyval \<Rightarrow> exn + pyval" where
  "label_removed label =
     bindE (py_get label ''message'' (PDict [])) (\<lambda>message.
     bindE (py_get message ''id'' PNone) (\<lambda>message_id.
     bindE (py_get message ''threadId'' PNone) (\<lambda>thread_id.
     bindE (py_get label ''labelIds'' (PList [])) (\<lambda>label_ids.
       Inr (PDict [(''type'', PStr ''labelRemoved''), (''message_id'', message_id),
                   (''thread_id'', thread_id), (''label_ids'', label_ids)])))))"

text \<open>One of the four blocks of lines 655 to 695: if the record has the key, an entry is
  appended to \<open>changes\<close> for each item under it.\<close>

fun changes_loop :: "(pyval \<Rightarrow> exn + pyval) \<Rightarrow> pyval list \<Rightarrow> pyval list \<Rightarrow> exn + pyval list" where
  "changes_loop entry changes [] = Inr changes"
| "changes_loop entry changes (item # rest) =
     bindE (entry item) (\<lambda>change. changes_loop entry (changes @ [change]) rest)"

definition changes_block ::
  "string \<Rightarrow> (pyval \<Rightarrow> exn + pyval) \<Rightarrow> pyval \<Rightarrow> pyval list \<Rightarrow> exn + pyval list" where
  "changes_block key entry record changes =
     bindE (py_contains key record) (\<lambda>has.
       if has then
         bindE (py_getitem record key) (\<lambda>v.
         bindE (py_iter v) (\<lambda>items. changes_loop entry changes items))
       else Inr changes)"

text \<open>Lines 649 to 697, the body of the loop over the records.\<close>

definition process_record :: "pyval \<Rightarrow> exn + pyval" where
  "process_record record =
     bindE (py_get record ''id'' PNone) (\<lambda>record_id.
     bindE (changes_block ''messagesAdded'' message_added record []) (\<lambda>changes1.
     bindE (changes_block ''messagesDeleted'' message_deleted record changes1) (\<lambda>changes2.
     bindE (changes_block ''labelsAdded'' label_added record changes2) (\<lambda>changes3.
     bindE (changes_block ''labelsRemoved'' label_removed record changes3) (\<lambda>changes4.
       Inr (PDict [(''id'', record_id), (''changes'', PList changes4)]))))))"

fun process_history :: "pyval list \<Rightarrow> pyval list \<Rightarrow> exn + pyval list" where
  "process_history processed_history [] = Inr processed_history"
| "process_history processed_history (record # rest) =
     bindE (process_record record) (\<lambda>processed_record.
       process_history (processed_history @ [processed_record]) rest)"

text \<open>Lines 647 to 697 on the helper's result.\<close>

definition processed_records :: "pyval \<Rightarrow> exn + pyval list" where
  "processed_records result =
     bindE (py_getitem result ''history'') (\<lambda>history.
     bindE (py_iter history) (\<lambda>records. process_history [] records))"

definition HistoryResponse :: "pyval \<Rightarrow> pyval \<Rightarrow> pyval \<Rightarrow> exn + response" where
  "HistoryResponse history_records latest_history_id err =
     bindE (pydantic_list_of_dict history_records) (\<lambda>h.
     bindE (pydantic_opt_str latest_history_id) (\<lambda>l.
     bindE (pydantic_opt_str err) (\<lambda>e.
       Inr [(''history_records'', h), (''latest_history_id'', l), (''error'', e)])))"

text \<open>Lines 638 to 708, the \<open>try\<close> block after the call of the helper. The id is saved
  (line 701, to the default path, the outcome of \<open>save_history_id\<close> dropped) before the
  response object is built.\<close>

definition get_gmail_history_try :: "runtime \<Rightarrow> files \<Rightarrow> pyval \<Rightarrow> (exn + response) \<times> files" where
  "get_gmail_history_try rt fs result =
     (case py_getitem result ''error'' of
        Inl e \<Rightarrow> (Inl e, fs)
      | Inr err \<Rightarrow>
          if py_truthy err then (HistoryResponse (PList []) PNone err, fs)
          else
            (case processed_records result of
               Inl e \<Rightarrow> (Inl e, fs)
             | Inr processed_history \<Rightarrow>
                 (case py_getitem result ''latest_history_id'' of
                    Inl e \<Rightarrow> (Inl e, fs)
                  | Inr latest \<Rightarrow>
                      (let fs' = (if py_truthy latest
                                  then snd (save_history_id rt fs latest history_id_file)
                                  else fs)
                       in (HistoryResponse (PList processed_history) latest PNone, fs')))))"

definition history_response :: "pyval \<Rightarrow> pyval \<Rightarrow> pyval \<Rightarrow> response" where
  "history_response history_records latest_history_id err =
     [(''history_records'', history_records), (''latest_history_id'', latest_history_id),
      (''error'', err)]"

definition get_gmail_history ::
  "runtime \<Rightarrow> gmail_api auth_env \<Rightarrow> files \<Rightarrow> gmail_api GmailHelper \<Rightarrow> string option \<Rightarrow>
   string list option \<Rightarrow> int option \<Rightarrow> string option \<Rightarrow>
   (response \<times> files \<times> gmail_api GmailHelper \<times> gmail_call list) option" where
  "get_gmail_history rt env fs self start_history_id history_types max_results user_id =
     (case get_history env self start_history_id history_types max_results user_id of
        None \<Rightarrow> None
      | Some (result, self', calls) \<Rightarrow>
          (case get_gmail_history_try rt fs result of
             (Inr response, fs') \<Rightarrow> Some (response, fs', self', calls)
           | (Inl e, fs') \<Rightarrow>
               Some (history_response (PList []) PNone
                       (PStr (''Error in get_gmail_history: '' @ str_exn e)),
                     fs', self', calls)))"

subsection \<open>When the id is saved\<close>

lemma get_history_shape:
  assumes "get_history env self start_history_id history_types max_results user_id =
             Some (result, self', calls)"
  shows "(\<exists>m. m \<noteq> [] \<and> result = history_result (PList []) PNone (Some m))
       \<or> (\<exists>h l. result = history_result h l None)"
  using assms
  by (auto simp: get_history_def get_history_baseline_def get_history_from_def
      history_latest_def Let_def bindE_eq_Inr
      split: prod.splits sum.splits bool.splits option.splits if_splits)

lemma process_record_dict: "process_record record = Inr p \<Longrightarrow> is_dict p"
  by (auto simp: process_record_def bindE_eq_Inr is_dict_def)

lemma process_history_dicts:
  "process_history processed records = Inr out \<Longrightarrow> list_all is_dict processed \<Longrightarrow>
   list_all is_dict out"
proof (induction records arbitrary: processed)
  case Nil
  then show ?case by simp
next
  case (Cons r rs)
  then show ?case by (auto simp: bindE_eq_Inr dest: process_record_dict)
qed

lemma processed_records_dicts: "processed_records result = Inr p \<Longrightarrow> list_all is_dict p"
  by (auto simp: processed_records_def bindE_eq_Inr dest: process_history_dicts)

lemma get_history_two_pages:
  "get_history no_auth_env \<lparr>service = Some two_page_api\<rparr> (Some ''100'') None (Some 100)
     (Some ''me'') =
   Some (history_result (PList [record_101, record_102]) (PStr ''102'') None,
         \<lparr>service = Some two_page_api\<rparr>,
         [HistoryList (first_params ''100'' None (Some 100) (Some ''me'')),
          HistoryList ((first_params ''100'' None (Some 100) (Some ''me''))
                         \<lparr>pageToken := Some (PStr ''page2'')\<rparr>)])"
proof -
  let ?p = "first_params ''100'' None (Some 100) (Some ''me'')"
  let ?r = "PDict [(''history'', PList [record_101]), (''nextPageToken'', PStr ''page2'')]"
  have 1: "history_list two_page_api ?p = Inr ?r"
    by (simp add: two_page_api_def first_params_def)
  have 4: "page_chain two_page_api ?p (PStr ''page2'') [([record_102], PNone)]"
    by (simp add: two_page_api_def)
  have "get_history_from two_page_api ''100'' None (Some 100) (Some ''me'') =
     Some (history_latest (PList ([record_101] @ concat (map fst [([record_102], PNone)]))) ''100'',
           HistoryList ?p # page_calls ?p (PStr ''page2'') [([record_102], PNone)])"
    by (rule get_history_from_chain[OF 1 _ _ 4]) simp_all
  then show ?thesis
    by (simp add: get_history_def service_or_authenticate_def the_service_def
        history_latest_list record_102_def)
qed

text \<open>A platform on which no file can be opened for writing.\<close>

definition read_only_runtime :: runtime where
  "read_only_runtime =
     (plain_runtime Posix)\<lparr>open_for_writing :=
        (\<lambda>p. Some (OtherError ''No such file or directory''))\<rparr>"

text \<open>
  Claim C4, as amended. \<open>get_gmail_history\<close> returns whenever \<open>get_history\<close> does. If
  \<open>get_history\<close> returns an error, the tool returns that error, with no records and no id,
  and no file is touched. If it returns without an error, the tool calls
  \<open>save_history_id\<close> on the default path with the latest id exactly when that id is truthy
  (neither \<open>None\<close> nor empty) and the processing of the history records has raised no
  exception; otherwise no file is touched. What \<open>save_history_id\<close> returns is dropped: the
  file holds (the encoding of) \<open>str()\<close> of the id afterwards if it could be opened and
  written, and the tool's response does not tell. The response carries the processed records, the latest id and
  \<open>error\<close> \<open>None\<close> when the records were processed and the id is a string or \<open>None\<close>.
\<close>

theorem get_gmail_history_saves:
  assumes "get_history env self start_history_id history_types max_results user_id =
             Some (result, self', calls)"
  shows "\<exists>response fs'.
      get_gmail_history rt env fs self start_history_id history_types max_results user_id =
        Some (response, fs', self', calls)
    \<and> (\<forall>msg. py_getitem result ''error'' = Inr (PStr msg) \<longrightarrow>
          fs' = fs \<and> response = history_response (PList []) PNone (PStr msg))
    \<and> (\<forall>latest. py_getitem result ''error'' = Inr PNone
          \<and> py_getitem result ''latest_history_id'' = Inr latest \<longrightarrow>
          fs' = (if py_truthy latest \<and> (\<exists>p. processed_records result = Inr p)
                 then snd (save_history_id rt fs latest history_id_file) else fs))
    \<and> (\<forall>latest bytes. py_getitem result ''error'' = Inr PNone
          \<and> py_getitem result ''latest_history_id'' = Inr latest
          \<and> py_truthy latest \<and> (\<exists>p. processed_records result = Inr p)
          \<and> open_for_writing rt history_id_file = None
          \<and> encode rt (write_text (os_name rt) (py_str rt latest)) = Inr bytes \<longrightarrow>
          fs' = written fs history_id_file bytes
          \<and> (fs history_id_file \<noteq> Some Device \<longrightarrow>
               fs' = fs(history_id_file \<mapsto> Regular bytes)))
    \<and> (\<forall>latest p. py_getitem result ''error'' = Inr PNone
          \<and> py_getitem result ''latest_history_id'' = Inr latest
          \<and> processed_records result = Inr p
          \<and> pydantic_opt_str latest = Inr latest \<longrightarrow>
          response = history_response (PList p) latest PNone)"
proof -
  from get_history_shape[OF assms] consider
    (err) m where "m \<noteq> []" "result = history_result (PList []) PNone (Some m)"
  | (ok) h l where "result = history_result h l None"
    by blast
  then show ?thesis
  proof cases
    case err
    then show ?thesis
      using assms
      by (simp add: get_gmail_history_def get_gmail_history_try_def history_result_def
          HistoryResponse_def history_response_def)
  next
    case ok
    then have e: "py_getitem result ''error'' = Inr PNone"
      and l: "py_getitem result ''latest_history_id'' = Inr l"
      by (simp_all add: history_result_def)
    show ?thesis
    proof (cases "processed_records result")
      case (Inl x)
      then show ?thesis
        using assms e l
        by (simp add: get_gmail_history_def get_gmail_history_try_def)
    next
      case (Inr p)
      have d: "pydantic_list_of_dict (PList p) = Inr (PList p)"
        using processed_records_dicts[OF Inr] by simp
      have s: "snd (save_history_id rt fs l history_id_file) =
                 (case open_for_writing rt history_id_file of
                    Some x \<Rightarrow> fs
                  | None \<Rightarrow>
                      (case encode rt (write_text (os_name rt) (py_str rt l)) of
                         Inl x \<Rightarrow> written fs history_id_file []
                       | Inr bytes \<Rightarrow> written fs history_id_file bytes))"
        by (simp add: save_history_id_def split: option.splits sum.splits)
      have r: "\<And>bytes. fs history_id_file \<noteq> Some Device \<Longrightarrow>
                 written fs history_id_file bytes = fs(history_id_file \<mapsto> Regular bytes)"
        by (auto simp: written_def split: option.splits node.splits)
      show ?thesis
      proof (cases "pydantic_opt_str l")
        case (Inl x)
        then have n: "pydantic_opt_str l \<noteq> Inr l" by simp
        from Inl show ?thesis
          using assms e l Inr d n
          by (simp add: get_gmail_history_def get_gmail_history_try_def HistoryResponse_def
              Let_def s r)
      next
        case (Inr l')
        then have "l' = l" by (cases l) auto
        with Inr have v: "pydantic_opt_str l = Inr l" by simp
        show ?thesis
          using assms e l \<open>processed_records result = Inr p\<close> d v
          by (simp add: get_gmail_history_def get_gmail_history_try_def HistoryResponse_def
              history_response_def Let_def s r)
      qed
    qed
  qed
qed

theorem get_gmail_history_saves_witness:
  "get_gmail_history (plain_runtime Posix) no_auth_env Map.empty \<lparr>service = Some two_page_api\<rparr>
     (Some ''100'') None (Some 100) (Some ''me'') =
   Some (history_response
           (PList [PDict [(''id'', PStr ''101''),
                          (''changes'', PList [PDict [(''type'', PStr ''messageAdded''),
                                                      (''message_id'', PStr ''m1''),
                                                      (''thread_id'', PNone),
                                                      (''label_ids'', PList [])]])],
                   PDict [(''id'', PStr ''102''), (''changes'', PList [])]])
           (PStr ''102'') PNone,
         [history_id_file \<mapsto> Regular ''102''],
         \<lparr>service = Some two_page_api\<rparr>,
         [HistoryList (first_params ''100'' None (Some 100) (Some ''me'')),
          HistoryList ((first_params ''100'' None (Some 100) (Some ''me''))
                         \<lparr>pageToken := Some (PStr ''page2'')\<rparr>)])"
proof -
  let ?result = "history_result (PList [record_101, record_102]) (PStr ''102'') None"
  let ?p = "[PDict [(''id'', PStr ''101''),
                    (''changes'', PList [PDict [(''type'', PStr ''messageAdded''),
                                                (''message_id'', PStr ''m1''),
                                                (''thread_id'', PNone),
                                                (''label_ids'', PList [])]])],
             PDict [(''id'', PStr ''102''), (''changes'', PList [])]]"
  have e: "py_getitem ?result ''error'' = Inr PNone"
    and l: "py_getitem ?result ''latest_history_id'' = Inr (PStr ''102'')"
    by (simp_all add: history_result_def)
  have p: "processed_records ?result = Inr ?p"
    by (simp add: processed_records_def history_result_def process_record_def
        changes_block_def message_added_def record_101_def record_102_def)
  have w: "open_for_writing (plain_runtime Posix) history_id_file = None"
    "encode (plain_runtime Posix)
       (write_text (os_name (plain_runtime Posix)) (py_str (plain_runtime Posix) (PStr ''102''))) =
     Inr ''102''"
    "Map.empty history_id_file \<noteq> Some Device"
    by (simp_all add: plain_runtime_def write_text_posix)
  from get_gmail_history_saves[OF get_history_two_pages, of "plain_runtime Posix" Map.empty]
  obtain response fs' where
    g: "get_gmail_history (plain_runtime Posix) no_auth_env Map.empty
          \<lparr>service = Some two_page_api\<rparr> (Some ''100'') None (Some 100) (Some ''me'') =
        Some (response, fs', \<lparr>service = Some two_page_api\<rparr>,
              [HistoryList (first_params ''100'' None (Some 100) (Some ''me'')),
               HistoryList ((first_params ''100'' None (Some 100) (Some ''me''))
                              \<lparr>pageToken := Some (PStr ''page2'')\<rparr>)])"
    and f: "\<forall>latest bytes. py_getitem ?result ''error'' = Inr PNone
          \<and> py_getitem ?result ''latest_history_id'' = Inr latest
          \<and> py_truthy latest \<and> (\<exists>p. processed_records ?result = Inr p)
          \<and> open_for_writing (plain_runtime Posix) history_id_file = None
          \<and> encode (plain_runtime Posix)
               (write_text (os_name (plain_runtime Posix)) (py_str (plain_runtime Posix) latest)) =
             Inr bytes \<longrightarrow>
          fs' = written Map.empty history_id_file bytes
          \<and> (Map.empty history_id_file \<noteq> Some Device \<longrightarrow>
               fs' = Map.empty(history_id_file \<mapsto> Regular bytes))"
    and r: "\<forall>latest p. py_getitem ?result ''error'' = Inr PNone
          \<and> py_getitem ?result ''latest_history_id'' = Inr latest
          \<and> processed_records ?result = Inr p
          \<and> pydantic_opt_str latest = Inr latest \<longrightarrow>
          response = history_response (PList p) latest PNone"
    by blast
  from f e l p w have "fs' = [history_id_file \<mapsto> Regular ''102'']"
    by fastforce
  moreover from r e l p have "response = history_response (PList ?p) (PStr ''102'') PNone"
    by simp
  ultimately show ?thesis using g by simp
qed

text \<open>The helper succeeds with the id \<open>4711\<close>, the file cannot be opened, and the tool
  reports success with nothing saved; and an empty id, which is not \<open>None\<close>, is not saved
  even where the file can be written.\<close>

theorem get_gmail_history_counterexample:
  "get_history no_auth_env
     \<lparr>service = Some (profile_api (PDict [(''historyId'', PStr ''4711'')]))\<rparr>
     None None (Some 100) (Some ''me'') =
   Some (history_result (PList []) (PStr ''4711'') None,
         \<lparr>service = Some (profile_api (PDict [(''historyId'', PStr ''4711'')]))\<rparr>,
         [GetProfile (Some ''me'')])
   \<and> get_gmail_history read_only_runtime no_auth_env Map.empty
     \<lparr>service = Some (profile_api (PDict [(''historyId'', PStr ''4711'')]))\<rparr>
     None None (Some 100) (Some ''me'') =
   Some (history_response (PList []) (PStr ''4711'') PNone, Map.empty,
         \<lparr>service = Some (profile_api (PDict [(''historyId'', PStr ''4711'')]))\<rparr>,
         [GetProfile (Some ''me'')])
   \<and> get_gmail_history (plain_runtime Posix) no_auth_env Map.empty
     \<lparr>service = Some (profile_api (PDict [(''historyId'', PStr [])]))\<rparr>
     None None (Some 100) (Some ''me'') =
   Some (history_response (PList []) (PStr []) PNone, Map.empty,
         \<lparr>service = Some (profile_api (PDict [(''historyId'', PStr [])]))\<rparr>,
         [GetProfile (Some ''me'')])"
  by (simp add: get_gmail_history_def get_gmail_history_try_def get_history_def
      get_history_baseline_def service_or_authenticate_def the_service_def profile_api_def
      profile_down_api_def history_result_def processed_records_def HistoryResponse_def
      history_response_def save_history_id_def read_only_runtime_def plain_runtime_def
      is_dict_def written_def)

section \<open>Updating a label\<close>

subsection \<open>\<open>GmailHelper.list_labels\<close> and \<open>update_label\<close> (\<open>helper.py\<close>, lines 954 to 990 and 1050 to 1092)\<close>

definition labels_result :: "pyval \<Rightarrow> string option \<Rightarrow> pyval" where
  "labels_result labels err = PDict [(''labels'', labels), (''error'', of_opt err)]"

definition label_result :: "pyval \<Rightarrow> string option \<Rightarrow> pyval" where
  "label_result label err = PDict [(''label'', label), (''error'', of_opt err)]"

definition list_labels ::
  "gmail_api auth_env \<Rightarrow> gmail_api GmailHelper \<Rightarrow> string option \<Rightarrow>
   pyval \<times> gmail_api GmailHelper \<times> gmail_call list" where
  "list_labels env self uid =
     (case service_or_authenticate env self of
        (False, self') \<Rightarrow>
          (labels_result (PList []) (Some ''Failed to authenticate with Gmail''), self', [])
      | (True, self') \<Rightarrow>
          (case the_service self' of
             Inl e \<Rightarrow>
               (labels_result (PList []) (Some (''Error listing labels: '' @ str_exn e)),
                self', [])
           | Inr api \<Rightarrow>
               (case bindE (labels_list api uid) (\<lambda>response.
                     bindE (py_get response ''labels'' (PList [])) (\<lambda>labels.
                     bindE (py_len labels) (\<lambda>n. Inr (labels_result labels None)))) of
                  Inl e \<Rightarrow>
                    (labels_result (PList []) (Some (''Error listing labels: '' @ str_exn e)),
                     self', [LabelsList uid])
                | Inr result \<Rightarrow> (result, self', [LabelsList uid]))))"

definition update_label ::
  "gmail_api auth_env \<Rightarrow> gmail_api GmailHelper \<Rightarrow> string \<Rightarrow> pyval \<Rightarrow> string option \<Rightarrow>
   pyval \<times> gmail_api GmailHelper \<times> gmail_call list" where
  "update_label env self lid updated_label uid =
     (case service_or_authenticate env self of
        (False, self') \<Rightarrow>
          (label_result PNone (Some ''Failed to authenticate with Gmail''), self', [])
      | (True, self') \<Rightarrow>
          (case the_service self' of
             Inl e \<Rightarrow>
               (label_result PNone (Some (''Error updating label: '' @ str_exn e)), self', [])
           | Inr api \<Rightarrow>
               (case labels_update api uid lid updated_label of
                  Inl e \<Rightarrow>
                    (label_result PNone (Some (''Error updating label: '' @ str_exn e)),
                     self', [LabelsUpdate uid lid updated_label])
                | Inr updated \<Rightarrow>
                    (label_result updated None, self', [LabelsUpdate uid lid updated_label]))))"

subsection \<open>The tool \<open>update_gmail_label\<close> (\<open>gmail_mcp_server.py\<close>, lines 1150 to 1262)\<close>

record UpdateLabelRequest =
  label_id :: string
  name :: "string option"
  text_color :: "string option"
  background_color :: "string option"
  message_list_visibility :: "string option"
  label_list_visibility :: "string option"
  user_id :: "string option"

text \<open>An \<open>Optional[Dict[str, Any]]\<close> field.\<close>

fun pydantic_opt_dict :: "pyval \<Rightarrow> exn + pyval" where
  "pydantic_opt_dict PNone = Inr PNone"
| "pydantic_opt_dict (PDict kvs) = Inr (PDict kvs)"
| "pydantic_opt_dict _ = Inl ValidationError"

definition LabelResponse :: "pyval \<Rightarrow> pyval \<Rightarrow> exn + response" where
  "LabelResponse label err =
     bindE (pydantic_opt_dict label) (\<lambda>l.
     bindE (pydantic_opt_str err) (\<lambda>e.
       Inr [(''label'', l), (''error'', e)]))"

text \<open>Lines 1193 to 1197: the first label whose \<open>id\<close> is the requested one, \<open>None\<close> if the
  loop ends without a match.\<close>

fun find_label :: "string \<Rightarrow> pyval list \<Rightarrow> exn + pyval" where
  "find_label lid [] = Inr PNone"
| "find_label lid (label # rest) =
     bindE (py_get label ''id'' PNone) (\<lambda>i.
       if i = PStr lid then Inr label else find_label lid rest)"

text \<open>Lines 1208 to 1221, once for each of the three fields: the request's value, or
  else the existing label's.\<close>

definition kept_field :: "string option \<Rightarrow> pyval \<Rightarrow> string \<Rightarrow> exn + pyval" where
  "kept_field requested target_label key =
     (case requested of
        Some v \<Rightarrow> Inr (PStr v)
      | None \<Rightarrow> py_get target_label key PNone)"

text \<open>Lines 1225 to 1227 and 1229 to 1231: a colour of the request, or else the one of
  the existing label's \<open>color\<close>, if it has one.\<close>

definition filled_color :: "string option \<Rightarrow> pyval \<Rightarrow> string \<Rightarrow> exn + pyval" where
  "filled_color requested target_label key =
     (case requested of
        Some v \<Rightarrow> Inr (PStr v)
      | None \<Rightarrow>
          bindE (py_contains ''color'' target_label) (\<lambda>has.
            if has then bindE (py_getitem target_label ''color'') (\<lambda>c. py_get c key PNone)
            else Inr PNone))"

text \<open>Lines 1206 to 1237: the body of the update.\<close>

definition updated_label_body :: "UpdateLabelRequest \<Rightarrow> pyval \<Rightarrow> exn + pyval" where
  "updated_label_body request target_label =
     bindE (kept_field (name request) target_label ''name'') (\<lambda>n.
     bindE (kept_field (message_list_visibility request) target_label
              ''messageListVisibility'') (\<lambda>m.
     bindE (kept_field (label_list_visibility request) target_label
              ''labelListVisibility'') (\<lambda>l.
       let updated_label = [(''name'', n), (''messageListVisibility'', m),
                            (''labelListVisibility'', l)]
       in
       if text_color request \<noteq> None \<or> background_color request \<noteq> None then
         bindE (filled_color (text_color request) target_label ''textColor'') (\<lambda>tc.
         bindE (filled_color (background_color request) target_label ''backgroundColor'') (\<lambda>bc.
           if py_truthy tc \<and> py_truthy bc then
             Inr (PDict (updated_label @
                    [(''color'', PDict [(''textColor'', tc), (''backgroundColor'', bc)])]))
           else Inr (PDict updated_label)))
       else Inr (PDict updated_label))))"

text \<open>Lines 1186 to 1257, the \<open>try\<close> block after the call of \<open>list_labels\<close>.\<close>

definition update_gmail_label_try ::
  "runtime \<Rightarrow> gmail_api auth_env \<Rightarrow> gmail_api GmailHelper \<Rightarrow> UpdateLabelRequest \<Rightarrow> pyval \<Rightarrow>
   (exn + response) \<times> gmail_api GmailHelper \<times> gmail_call list" where
  "update_gmail_label_try rt env self request existing_label_result =
     (case py_getitem existing_label_result ''error'' of
        Inl e \<Rightarrow> (Inl e, self, [])
      | Inr err \<Rightarrow>
          if py_truthy err then
            (LabelResponse PNone
               (PStr (''Failed to retrieve existing label: '' @ py_str rt err)), self, [])
          else
            (case bindE (py_getitem existing_label_result ''labels'') (\<lambda>ls.
                  bindE (py_iter ls) (\<lambda>labels. find_label (label_id request) labels)) of
               Inl e \<Rightarrow> (Inl e, self, [])
             | Inr target_label \<Rightarrow>
                 if \<not> py_truthy target_label then
                   (LabelResponse PNone
                      (PStr (''Label with ID '' @ label_id request @ '' not found'')), self, [])
                 else
                   (case updated_label_body request target_label of
                      Inl e \<Rightarrow> (Inl e, self, [])
                    | Inr updated_label \<Rightarrow>
                        (case update_label env self (label_id request) updated_label
                                (user_id request) of
                           (result, self', calls) \<Rightarrow>
                             (bindE (py_getitem result ''error'') (\<lambda>err.
                                if py_truthy err then LabelResponse PNone err
                                else bindE (py_getitem result ''label'') (\<lambda>l.
                                       LabelResponse l PNone)),
                              self', calls)))))"

definition update_gmail_label ::
  "runtime \<Rightarrow> gmail_api auth_env \<Rightarrow> gmail_api GmailHelper \<Rightarrow> UpdateLabelRequest \<Rightarrow>
   response \<times> gmail_api GmailHelper \<times> gmail_call list" where
  "update_gmail_label rt env self request =
     (case list_labels env self (user_id request) of
        (existing_label_result, self1, calls1) \<Rightarrow>
          (case update_gmail_label_try rt env self1 request existing_label_result of
             (Inr response, self2, calls2) \<Rightarrow> (response, self2, calls1 @ calls2)
           | (Inl e, self2, calls2) \<Rightarrow>
               ([(''label'', PNone),
                 (''error'', PStr (''Error in update_gmail_label: '' @ str_exn e))],
                self2, calls1 @ calls2)))"

subsection \<open>The body of the update\<close>









fun is_labels_update :: "gmail_call \<Rightarrow> bool" where
  "is_labels_update (LabelsUpdate u i b) = True"
| "is_labels_update c = False"




















section \<open>The exception handlers of the tools\<close>

text \<open>
  The five servers define 56 tool functions (21 in \<open>gmail_mcp_server.py\<close>, 12 in
  \<open>google_calendar_mcp_tool.py\<close>, 19 in \<open>google_drive_mcp_tool.py\<close>, one in
  \<open>jira_mcp_server.py\<close> and three in \<open>video_mcp_server.py\<close>). The body of each is one \<open>try\<close>
  statement with one handler, \<open>except Exception as e\<close>, and the handler returns a value
  built from \<open>str(e)\<close>: a response object whose \<open>error\<close> is a fixed prefix followed by
  \<open>str(e)\<close> and whose other fields are constants, or, in one tool, a bare string. Only
  \<open>transcribe_video\<close> has a \<open>finally\<close> clause, which removes its temporary files. A row of
  the table is a tool: its server, its name, its handler and whether it has a \<open>finally\<close>
  clause. The other fields of a response are listed in the order of the class, with the
  default of a field that the handler does not set.
\<close>

datatype handler =
    Response "(string \<times> pyval) list" string
  | Bare string

type_synonym tool = "server \<times> string \<times> handler \<times> bool"

definition tools :: "tool list" where
  "tools =
     [(GmailServer, ''list_gmail_messages'',
       Response [(''messages'', PList [])] ''Error in list_gmail_messages: '', False),
      (GmailServer, ''get_gmail_profile'',
       Response [(''profile'', PNone)] ''Error in get_gmail_profile: '', False),
      (GmailServer, ''setup_gmail_watch'',
       Response [(''watch_data'', PNone)] ''Error in setup_gmail_watch: '', False),
      (GmailServer, ''create_gmail_draft'',
       Response [(''draft'', PNone)] ''Error in create_gmail_draft: '', False),
      (GmailServer, ''delete_gmail_draft'',
       Response [(''success'', PBool False)] ''Error in delete_gmail_draft: '', False),
      (GmailServer, ''get_gmail_draft'',
       Response [(''draft'', PNone)] ''Error in get_gmail_draft: '', False),
      (GmailServer, ''list_gmail_drafts'',
       Response [(''drafts'', PList [])] ''Error in list_gmail_drafts: '', False),
      (GmailServer, ''send_gmail_draft'',
       Response [(''message'', PNone)] ''Error in send_gmail_draft: '', False),
      (GmailServer, ''update_gmail_draft'',
       Response [(''draft'', PNone)] ''Error in update_gmail_draft: '', False),
      (GmailServer, ''load_saved_history_id'',
       Response [(''history_id'', PNone)] ''Error loading saved history ID: '', False),
      (GmailServer, ''get_gmail_history'',
       Response [(''history_records'', PList []), (''latest_history_id'', PNone)]
         ''Error in get_gmail_history: '', False),
      (GmailServer, ''authenticate_gmail'',
       Response [(''authenticated'', PBool False), (''message'', PStr ''Unexpected error during authentication''), (''email'', PNone)]
         ''Error in authenticate_gmail: '', False),
      (GmailServer, ''send_gmail_message'',
       Response [(''message'', PNone)] ''Error in send_gmail_message: '', False),
      (GmailServer, ''modify_gmail_message'',
       Response [(''message'', PNone)] ''Error in modify_gmail_message: '', False),
      (GmailServer, ''list_gmail_threads'',
       Response [(''threads'', PList [])] ''Error in list_gmail_threads: '', False),
      (GmailServer, ''get_gmail_thread'',
       Response [(''thread'', PNone)] ''Error in get_gmail_thread: '', False),
      (GmailServer, ''list_gmail_labels'',
       Response [(''labels'', PList [])] ''Error in list_gmail_labels: '', False),
      (GmailServer, ''create_gmail_label'',
       Response [(''label'', PNone)] ''Error in create_gmail_label: '', False),
      (GmailServer, ''update_gmail_label'',
       Response [(''label'', PNone)] ''Error in update_gmail_label: '', False),
      (GmailServer, ''list_gmail_filters'',
       Response [(''filters'', PList [])] ''Error in list_gmail_filters: '', False),
      (GmailServer, ''create_gmail_filter'',
       Response [(''filter'', PNone)] ''Error in create_gmail_filter: '', False),
      (CalendarServer, ''list_calendars'',
       Response [(''calendars'', PList [])] ''Error in list_calendars: '', False),
      (CalendarServer, ''get_calendar'',
       Response [(''calendar'', PNone)] ''Error in get_calendar: '', False),
      (CalendarServer, ''create_calendar'',
       Response [(''calendar'', PNone)] ''Error in create_calendar: '', False),
      (CalendarServer, ''delete_calendar'',
       Response [(''success'', PBool False)] ''Error in delete_calendar: '', False),
      (CalendarServer, ''list_events'',
       Response [(''events'', PList [])] ''Error in list_events: '', False),
      (CalendarServer, ''get_event'',
       Response [(''event'', PNone)] ''Error in get_event: '', False),
      (CalendarServer, ''create_event'',
       Response [(''event'', PNone)] ''Error in create_event: '', False),
      (CalendarServer, ''update_event'',
       Response [(''event'', PNone)] ''Error in update_event: '', False),
      (CalendarServer, ''delete_event'',
       Response [(''success'', PBool False)] ''Error in delete_event: '', False),
      (CalendarServer, ''find_free_busy'',
       Response [(''calendars'', PDict [])] ''Error in find_free_busy: '', False),
      (CalendarServer, ''quick_add_event'',
       Response [(''event'', PNone)] ''Error in quick_add_event: '', False),
      (CalendarServer, ''authenticate_calendar'',
       Response [(''authenticated'', PBool False), (''message'', PStr ''Authentication failed due to an error'')]
         ''Error in authenticate_calendar: '', False),
      (DriveServer, ''list_drive_files'',
       Response [(''files'', PList [])] ''Error in list_drive_files: '', False),
      (DriveServer, ''get_file_metadata'',
       Response [(''metadata'', PNone)] ''Error in get_file_metadata: '', False),
      (DriveServer, ''create_drive_folder'',
       Response [(''folder'', PNone)] ''Error in create_drive_folder: '', False),
      (DriveServer, ''create_drive_document'',
       Response [(''document'', PNone)] ''Error in create_drive_document: '', False),
      (DriveServer, ''create_drive_spreadsheet'',
       Response [(''spreadsheet'', PNone)] ''Error in create_drive_spreadsheet: '', False),
      (DriveServer, ''create_drive_presentation'',
       Response [(''presentation'', PNone)] ''Error in create_drive_presentation: '', False),
      (DriveServer, ''download_drive_file'',
       Response [(''content'', PNone), (''mime_type'', PNone), (''file_name'', PNone)]
         ''Error in download_drive_file: '', False),
      (DriveServer, ''delete_drive_file'',
       Response [(''success'', PBool False)] ''Error in delete_drive_file: '', False),
      (DriveServer, ''share_drive_file'',
       Response [(''permission'', PNone)] ''Error in share_drive_file: '', False),
      (DriveServer, ''upload_file_to_drive'',
       Response [(''file'', PNone)] ''Error in upload_file_to_drive: '', False),
      (DriveServer, ''authenticate_drive'',
       Response [(''authenticated'', PBool False), (''message'', PStr ''Unexpected error during authentication'')]
         ''Error in authenticate_drive: '', False),
      (DriveServer, ''get_document_content_tool'',
       Response [(''content'', PNone)] ''Error in get_document_content_tool: '', False),
      (DriveServer, ''update_document_content_tool'',
       Response [(''result'', PNone)] ''Error in update_document_content_tool: '', False),
      (DriveServer, ''get_spreadsheet_content_tool'',
       Response [(''content'', PNone)] ''Error in get_spreadsheet_content_tool: '', False),
      (DriveServer, ''update_spreadsheet_content_tool'',
       Response [(''result'', PNone)] ''Error in update_spreadsheet_content_tool: '', False),
      (DriveServer, ''update_spreadsheet_values_tool'',
       Response [(''result'', PNone)] ''Error in update_spreadsheet_values_tool: '', False),
      (DriveServer, ''get_presentation_content_tool'',
       Response [(''content'', PNone)] ''Error in get_presentation_content_tool: '', False),
      (DriveServer, ''update_presentation_content_tool'',
       Response [(''result'', PNone)] ''Error in update_presentation_content_tool: '', False),
      (DriveServer, ''move_drive_file'',
       Response [(''file'', PNone)] ''Error in move_drive_file: '', False),
      (JiraServer, ''extract_jira_issue'',
       Response [(''summary'', PStr []), (''description'', PStr [])]
         ''Error extracting Jira issue: '', False),
      (VideoServer, ''transcribe_video'',
       Response [(''transcript'', PStr [])] ''Error transcribing video: '', True),
      (VideoServer, ''summarize_video_transcript'',
       Bare ''Error summarizing transcript: '', False),
      (VideoServer, ''summarize_video'',
       Response [(''summary'', PStr [])] ''Error summarizing video: '', False)]"

text \<open>The value the handler returns for the exception \<open>e\<close>.\<close>

fun handle :: "handler \<Rightarrow> exn \<Rightarrow> pyval" where
  "handle (Response payload prefix) e = PDict (payload @ [(''error'', PStr (prefix @ str_exn e))])"
| "handle (Bare prefix) e = PStr (prefix @ str_exn e)"

text \<open>
  A call of a tool: \<open>body\<close> is the outcome of its \<open>try\<close> block, a returned value or an
  exception, and \<open>cleanup\<close> the exception that its \<open>finally\<close> clause raises, if it has the
  clause and the clause raises. An exception of the \<open>try\<close> block is handled; one of the
  \<open>finally\<close> clause takes the place of the value returned.
\<close>

definition call_tool :: "handler \<Rightarrow> bool \<Rightarrow> exn + pyval \<Rightarrow> exn option \<Rightarrow> exn + pyval" where
  "call_tool h has_finally body cleanup =
     (case (if has_finally then cleanup else None) of
        Some e' \<Rightarrow> Inl e'
      | None \<Rightarrow>
          (case body of
             Inr r \<Rightarrow> Inr r
           | Inl e \<Rightarrow> Inr (handle h e)))"

subsection \<open>What a tool returns for an exception\<close>






text \<open>The handlers of the two tools modelled above are their rows of the table.\<close>

lemma get_gmail_history_handler:
  assumes "get_history env self start ht mr uid = Some (result, self', calls)"
    and "get_gmail_history_try rt fs result = (Inl e, fs')"
  shows "(GmailServer, ''get_gmail_history'',
          Response [(''history_records'', PList []), (''latest_history_id'', PNone)]
            ''Error in get_gmail_history: '', False) \<in> set tools
       \<and> (\<exists>response. get_gmail_history rt env fs self start ht mr uid =
              Some (response, fs', self', calls)
            \<and> call_tool (Response [(''history_records'', PList []),
                                     (''latest_history_id'', PNone)]
                            ''Error in get_gmail_history: '') False (Inl e) None =
                Inr (PDict response))"
  using assms
  by (simp add: tools_def get_gmail_history_def history_response_def call_tool_def)

lemma update_gmail_label_handler:
  assumes "list_labels env self (user_id request) = (existing, self1, calls1)"
    and "update_gmail_label_try rt env self1 request existing = (Inl e, self2, calls2)"
  shows "(GmailServer, ''update_gmail_label'',
          Response [(''label'', PNone)] ''Error in update_gmail_label: '', False) \<in> set tools
       \<and> call_tool (Response [(''label'', PNone)] ''Error in update_gmail_label: '') False
            (Inl e) None =
          Inr (PDict (fst (update_gmail_label rt env self request)))"
  using assms
  by (simp add: tools_def update_gmail_label_def call_tool_def)




end
